theory Spec2Isabelle
  imports Complex_Main "HOL-Library.Sublist"
begin

section \<open>Assertion keywords of the database library\<close>

text \<open>
  A shallow embedding of \<^verbatim>\<open>src/DatabaseLibrary/assertion.py\<close>. A Python string is a list
  of code points below 256, a result row is a tuple of integers (the aggregate counts the
  checks read), an exception is the left injection of a sum. The connection, the query
  methods and the script loader live in another module of the library: they are fields of
  the record \<open>executor\<close> and every theorem holds for all of them.
\<close>

subsection \<open>Exceptions\<close>

datatype error =
    AssertionError string
  | ValueError
  | UnicodeEncodeError
  | ZeroDivisionError
  | OverflowError
  | IndexError
  | AttributeError
  | ExecutorError string

subsection \<open>Python's built-ins on text and integers\<close>

definition quote :: string where
  "quote = [CHR 0x27]"

definition is_digit :: "char \<Rightarrow> bool" where
  "is_digit c = (48 \<le> (of_char c :: nat) \<and> (of_char c :: nat) \<le> 57)"

definition digit_val :: "char \<Rightarrow> int" where
  "digit_val c = of_char c - 48"

definition digit_char :: "int \<Rightarrow> char" where
  "digit_char d = char_of (48 + d)"

text \<open>\<^verbatim>\<open>str(n)\<close> for an integer: its decimal digits, with a minus sign below zero.\<close>

function str_digits :: "int \<Rightarrow> string" where
  "str_digits n =
     (if n < 10 then [digit_char n] else str_digits (n div 10) @ [digit_char (n mod 10)])"
  by pat_completeness auto
termination
  by (relation "measure nat") auto

declare str_digits.simps [simp del]

definition str_int :: "int \<Rightarrow> string" where
  "str_int i = (if i < 0 then CHR ''-'' # str_digits (- i) else str_digits i)"

text \<open>\<^verbatim>\<open>sep.join(parts)\<close>.\<close>

fun join :: "string \<Rightarrow> string list \<Rightarrow> string" where
  "join sep [] = []"
| "join sep [x] = x"
| "join sep (x # y # ys) = x @ sep @ join sep (y # ys)"

text \<open>
  The whitespace the number parsers skip at both ends of an ASCII text: tab, line feed,
  vertical tab, form feed, carriage return and space.
\<close>

definition is_space :: "char \<Rightarrow> bool" where
  "is_space c = (c \<in> set [CHR 0x09, CHR 0x0A, CHR 0x0B, CHR 0x0C, CHR 0x0D, CHR 0x20])"

definition strip :: "string \<Rightarrow> string" where
  "strip s = rev (dropWhile is_space (rev (dropWhile is_space s)))"

text \<open>
  On a \<^verbatim>\<open>str\<close>, \<^verbatim>\<open>int\<close> and \<^verbatim>\<open>float\<close> first turn the non-ASCII spaces
  (next line, no-break space) into an ASCII space; every other code point from 128 on
  stays and is rejected by the parser.
\<close>

definition space_to_ascii :: "char \<Rightarrow> char" where
  "space_to_ascii c = (if c = CHR 0x85 \<or> c = CHR 0xA0 then CHR 0x20 else c)"

text \<open>
  The digits of a decimal literal, a single underscore allowed between two digits:
  \<open>parse_digits\<close> runs after the first digit with the value read so far.
\<close>

fun parse_digits :: "int \<Rightarrow> string \<Rightarrow> int option" where
  "parse_digits acc [] = Some acc"
| "parse_digits acc (c # cs) =
     (if is_digit c then parse_digits (acc * 10 + digit_val c) cs
      else if c = CHR ''_'' then
        (case cs of
           [] \<Rightarrow> None
         | d # ds \<Rightarrow> if is_digit d then parse_digits (acc * 10 + digit_val d) ds else None)
      else None)"

definition parse_decimal :: "string \<Rightarrow> int option" where
  "parse_decimal s =
     (case s of
        [] \<Rightarrow> None
      | c # cs \<Rightarrow> if is_digit c then parse_digits (digit_val c) cs else None)"

text \<open>
  An optional sign in front of a text: the flag says whether it was a minus.
\<close>

definition split_sign :: "string \<Rightarrow> bool \<times> string" where
  "split_sign s =
     (case s of
        [] \<Rightarrow> (False, [])
      | c # cs \<Rightarrow>
          if c = CHR ''-'' then (True, cs)
          else if c = CHR ''+'' then (False, cs)
          else (False, c # cs))"

text \<open>
  \<^verbatim>\<open>int(text)\<close> in base ten on ASCII text: spaces at both ends, an optional sign, then
  a decimal literal and nothing else.
\<close>

definition long_from_string :: "string \<Rightarrow> error + int" where
  "long_from_string s =
     (case split_sign (strip s) of
        (neg, body) \<Rightarrow>
          (case parse_decimal body of
             None \<Rightarrow> Inl ValueError
           | Some n \<Rightarrow> Inr (if neg then - n else n)))"

text \<open>
  The count argument of a row-count check is the one argument on which the source calls a
  method of \<^verbatim>\<open>str\<close>: it is kept as a Python value, text or an integer object.
  \<open>py_str\<close> is what \<^verbatim>\<open>'%s' % v\<close> prints.
\<close>

datatype pyvalue = PyStr string | PyInt int

definition py_str :: "pyvalue \<Rightarrow> string" where
  "py_str v = (case v of PyStr s \<Rightarrow> s | PyInt i \<Rightarrow> str_int i)"

text \<open>
  \<^verbatim>\<open>v.encode('ascii')\<close>: fails on the first code point from 128 on; an integer
  object has no such method.
\<close>

definition encode_ascii :: "pyvalue \<Rightarrow> error + string" where
  "encode_ascii v =
     (case v of
        PyStr s \<Rightarrow>
          if list_all (\<lambda>c. (of_char c :: nat) < 128) s then Inr s else Inl UnicodeEncodeError
      | PyInt i \<Rightarrow> Inl AttributeError)"

text \<open>\<^verbatim>\<open>int(numRows.encode('ascii'))\<close>, the coercion of the row-count checks.\<close>

definition int_of_encoded :: "pyvalue \<Rightarrow> error + int" where
  "int_of_encoded numRows =
     (case encode_ascii numRows of
        Inl e \<Rightarrow> Inl e
      | Inr b \<Rightarrow> long_from_string b)"

text \<open>\<^verbatim>\<open>int(field)\<close> on a \<^verbatim>\<open>str\<close>.\<close>

definition int_of_str :: "string \<Rightarrow> error + int" where
  "int_of_str s = long_from_string (map space_to_ascii s)"

subsection \<open>Result rows\<close>

type_synonym row = "int list"

text \<open>\<^verbatim>\<open>'%s' % rows\<close> for a list of tuples of integers.\<close>

definition repr_row :: "row \<Rightarrow> string" where
  "repr_row r =
     (case r of
        [x] \<Rightarrow> ''('' @ str_int x @ '',)''
      | _ \<Rightarrow> ''('' @ join '', '' (map str_int r) @ '')'')"

definition repr_rows :: "row list \<Rightarrow> string" where
  "repr_rows rs = ''['' @ join '', '' (map repr_row rs) @ '']''"

text \<open>\<^verbatim>\<open>rows[0]\<close> raises on an empty result.\<close>

definition first_row :: "row list \<Rightarrow> error + row" where
  "first_row rs = (case rs of [] \<Rightarrow> Inl IndexError | r # _ \<Rightarrow> Inr r)"

subsection \<open>The world a check runs in\<close>

text \<open>
  A check talks to the connection through the methods below and writes log lines. The
  world is the state of the connection, of any type, with the trace of what the check
  did so far: every call of a collaborator and every log line, in order.
\<close>

datatype event =
    Log string
  | Query string bool
  | RowCount string bool
  | ExecuteSqlScript string
  | OpenSql string
  | CompareTables string string string string
  | Cursor
  | Helper string "string list"

type_synonym 'w world = "'w \<times> event list"

type_synonym ('w, 'a) action = "'w world \<Rightarrow> (error + 'a) \<times> 'w world"

text \<open>
  The methods of the other modules of the library that the checks call. \<open>query\<close> and
  \<open>row_count\<close> take the statement and the \<^verbatim>\<open>sansTran\<close> flag.
\<close>

record 'w executor =
  db_api_module_name :: string
  query :: "string \<Rightarrow> bool \<Rightarrow> 'w \<Rightarrow> (error + row list) \<times> 'w"
  row_count :: "string \<Rightarrow> bool \<Rightarrow> 'w \<Rightarrow> (error + int) \<times> 'w"
  execute_sql_script :: "string \<Rightarrow> 'w \<Rightarrow> (error + unit) \<times> 'w"
  open_sql :: "string \<Rightarrow> 'w \<Rightarrow> (error + string) \<times> 'w"
  compare_tables :: "string \<Rightarrow> string \<Rightarrow> string \<Rightarrow> string \<Rightarrow> 'w \<Rightarrow> (error + int) \<times> 'w"
  cursor :: "'w \<Rightarrow> (error + unit) \<times> 'w"
  count_rows_helper :: "string \<Rightarrow> string list \<Rightarrow> 'w \<Rightarrow> (error + row list) \<times> 'w"

definition return :: "'a \<Rightarrow> ('w, 'a) action" where
  "return v = (\<lambda>s. (Inr v, s))"

definition raise :: "error \<Rightarrow> ('w, 'a) action" where
  "raise e = (\<lambda>s. (Inl e, s))"

definition lift :: "error + 'a \<Rightarrow> ('w, 'a) action" where
  "lift r = (\<lambda>s. (r, s))"

text \<open>Sequencing: an exception ends the check where it is raised.\<close>

definition seq :: "('w, 'a) action \<Rightarrow> ('a \<Rightarrow> ('w, 'b) action) \<Rightarrow> ('w, 'b) action" where
  "seq m f = (\<lambda>s. case m s of (Inl e, s') \<Rightarrow> (Inl e, s') | (Inr v, s') \<Rightarrow> f v s')"

text \<open>A call of a collaborator is recorded in the trace, whatever it returns.\<close>

definition call :: "event \<Rightarrow> ('w \<Rightarrow> (error + 'a) \<times> 'w) \<Rightarrow> ('w, 'a) action" where
  "call ev f = (\<lambda>(w, tr). case f w of (r, w') \<Rightarrow> (r, (w', tr @ [ev])))"

definition logger_info :: "string \<Rightarrow> ('w, unit) action" where
  "logger_info msg = (\<lambda>(w, tr). (Inr (), (w, tr @ [Log msg])))"

definition self_query :: "'w executor \<Rightarrow> string \<Rightarrow> bool \<Rightarrow> ('w, row list) action" where
  "self_query ex stmt sansTran = call (Query stmt sansTran) (query ex stmt sansTran)"

definition self_row_count :: "'w executor \<Rightarrow> string \<Rightarrow> bool \<Rightarrow> ('w, int) action" where
  "self_row_count ex stmt sansTran = call (RowCount stmt sansTran) (row_count ex stmt sansTran)"

subsection \<open>Existence checks\<close>

definition check_if_exists_in_database :: "'w executor \<Rightarrow> string \<Rightarrow> bool \<Rightarrow> ('w, unit) action" where
  "check_if_exists_in_database ex selectStatement sansTran =
     seq (logger_info (''Executing : Check If Exists In Database  |  '' @ selectStatement @ '' ''))
       (\<lambda>_. seq (self_query ex selectStatement sansTran)
       (\<lambda>rows. if rows = []
          then raise (AssertionError (''Expected to have have at least one row from '' @ quote
                 @ selectStatement @ quote @ '' but got 0 rows.''))
          else return ()))"

definition check_if_not_exists_in_database :: "'w executor \<Rightarrow> string \<Rightarrow> bool \<Rightarrow> ('w, unit) action" where
  "check_if_not_exists_in_database ex selectStatement sansTran =
     seq (logger_info (''Executing : Check If Not Exists In Database  |  '' @ selectStatement @ '' ''))
       (\<lambda>_. seq (self_query ex selectStatement sansTran)
       (\<lambda>queryResults. if queryResults \<noteq> []
          then raise (AssertionError (''Expected to have have no rows from '' @ quote
                 @ selectStatement @ quote @ '' but got some rows : '' @ repr_rows queryResults @ ''.''))
          else return ()))"

subsection \<open>Row-count comparisons\<close>

definition row_count_is_0 :: "'w executor \<Rightarrow> string \<Rightarrow> bool \<Rightarrow> ('w, unit) action" where
  "row_count_is_0 ex selectStatement sansTran =
     seq (logger_info (''Executing : Row Count Is 0  |  '' @ selectStatement @ '' ''))
       (\<lambda>_. seq (self_row_count ex selectStatement sansTran)
       (\<lambda>num_rows. if num_rows > 0
          then raise (AssertionError (''Expected zero rows to be returned from '' @ quote
                 @ selectStatement @ quote
                 @ '' but got rows back. Number of rows returned was '' @ str_int num_rows))
          else return ()))"

definition row_count_is_equal_to_x :: "'w executor \<Rightarrow> string \<Rightarrow> pyvalue \<Rightarrow> bool \<Rightarrow> ('w, unit) action" where
  "row_count_is_equal_to_x ex selectStatement numRows sansTran =
     seq (logger_info (''Executing : Row Count Is Equal To X  |  '' @ selectStatement
            @ ''  |  '' @ py_str numRows @ '' ''))
       (\<lambda>_. seq (self_row_count ex selectStatement sansTran)
       (\<lambda>num_rows. seq (lift (int_of_encoded numRows))
       (\<lambda>n. if num_rows \<noteq> n
          then raise (AssertionError (''Expected same number of rows to be returned from '' @ quote
                 @ selectStatement @ quote @ '' than the returned rows of '' @ str_int num_rows))
          else return ())))"

definition row_count_is_greater_than_x :: "'w executor \<Rightarrow> string \<Rightarrow> pyvalue \<Rightarrow> bool \<Rightarrow> ('w, unit) action" where
  "row_count_is_greater_than_x ex selectStatement numRows sansTran =
     seq (logger_info (''Executing : Row Count Is Greater Than X  |  '' @ selectStatement
            @ ''  |  '' @ py_str numRows @ '' ''))
       (\<lambda>_. seq (self_row_count ex selectStatement sansTran)
       (\<lambda>num_rows. seq (lift (int_of_encoded numRows))
       (\<lambda>n. if num_rows \<le> n
          then raise (AssertionError (''Expected more rows to be returned from '' @ quote
                 @ selectStatement @ quote @ '' than the returned rows of '' @ str_int num_rows))
          else return ())))"

definition row_count_is_less_than_x :: "'w executor \<Rightarrow> string \<Rightarrow> pyvalue \<Rightarrow> bool \<Rightarrow> ('w, unit) action" where
  "row_count_is_less_than_x ex selectStatement numRows sansTran =
     seq (logger_info (''Executing : Row Count Is Less Than X  |  '' @ selectStatement
            @ ''  |  '' @ py_str numRows @ '' ''))
       (\<lambda>_. seq (self_row_count ex selectStatement sansTran)
       (\<lambda>num_rows. seq (lift (int_of_encoded numRows))
       (\<lambda>n. if num_rows \<ge> n
          then raise (AssertionError (''Expected less rows to be returned from '' @ quote
                 @ selectStatement @ quote @ '' than the returned rows of '' @ str_int num_rows))
          else return ())))"

subsection \<open>Floating-point numbers\<close>

text \<open>
  A Python \<^verbatim>\<open>float\<close> is a binary64 number: a rational that has a 53-bit significand
  and an exponent in range, an infinity (the flag is True for the negative one), or
  not-a-number. The sign of a zero is not kept: no operation below tells the two zeros
  apart.
\<close>

datatype pyfloat = Finite rat | Infinity bool | NaN

text \<open>Rounding to an integer, a tie going to the even neighbour.\<close>

definition round_half_even :: "rat \<Rightarrow> int" where
  "round_half_even x =
     (let f = \<lfloor>x\<rfloor>; d = x - of_int f
      in if d < 1 / 2 then f
         else if 1 / 2 < d then f + 1
         else if even f then f else f + 1)"

definition scale :: "rat \<Rightarrow> int \<Rightarrow> rat" where
  "scale b e = (if 0 \<le> e then b ^ nat e else 1 / b ^ nat (- e))"

text \<open>\<^verbatim>\<open>n.bit_length()\<close> of a positive integer.\<close>

function bit_length :: "int \<Rightarrow> int" where
  "bit_length n = (if n \<le> 0 then 0 else 1 + bit_length (n div 2))"
  by pat_completeness auto
termination
  by (relation "measure nat") auto

declare bit_length.simps [simp del]

text \<open>The exponent \<open>e\<close> with \<open>2 ^ e \<le> x < 2 ^ (e + 1)\<close>, for a positive \<open>x\<close>.\<close>

definition floor_log2 :: "rat \<Rightarrow> int" where
  "floor_log2 x =
     (if 1 \<le> x then bit_length \<lfloor>x\<rfloor> - 1
      else - bit_length (\<lceil>1 / x\<rceil> - 1))"

text \<open>
  The binary64 number nearest to a rational, ties to the even significand: a significand
  of 53 bits from the smallest normal exponent on, a fixed step of \<open>2 ^ - 1074\<close> below it,
  and an infinity when the rounded number reaches \<open>2 ^ 1024\<close>.
\<close>

definition round_to_double :: "rat \<Rightarrow> pyfloat" where
  "round_to_double x =
     (if x = 0 then Finite 0
      else
        (let e = floor_log2 \<bar>x\<bar>
         in if 1024 \<le> e then Infinity (x < 0)
            else
              (let ulp = scale 2 (max e (- 1022) - 52);
                   m = round_half_even (\<bar>x\<bar> / ulp)
               in if e = 1023 \<and> m = 2 ^ 53 then Infinity (x < 0)
                  else Finite (sgn x * of_int m * ulp))))"

text \<open>
  \<^verbatim>\<open>float(text)\<close>. Underscores come out first: one is legal only between two digits.
\<close>

fun drop_underscores :: "char \<Rightarrow> string \<Rightarrow> string option" where
  "drop_underscores prev [] = (if prev = CHR ''_'' then None else Some [])"
| "drop_underscores prev (c # cs) =
     (if c = CHR ''_'' then (if is_digit prev then drop_underscores c cs else None)
      else if prev = CHR ''_'' \<and> \<not> is_digit c then None
      else map_option ((#) c) (drop_underscores c cs))"

definition lower :: "char \<Rightarrow> char" where
  "lower c =
     (if 65 \<le> (of_char c :: nat) \<and> (of_char c :: nat) \<le> 90
      then char_of ((of_char c :: nat) + 32) else c)"

definition digits_value :: "string \<Rightarrow> int" where
  "digits_value ds = foldl (\<lambda>a c. a * 10 + digit_val c) 0 ds"

definition parse_exponent :: "string \<Rightarrow> int option" where
  "parse_exponent r =
     (case r of
        [] \<Rightarrow> Some 0
      | c # t \<Rightarrow>
          if c = CHR ''e'' \<or> c = CHR ''E'' then
            (case split_sign t of
               (neg, ds) \<Rightarrow>
                 if ds \<noteq> [] \<and> list_all is_digit ds
                 then Some (if neg then - digits_value ds else digits_value ds)
                 else None)
          else None)"

text \<open>
  An unsigned decimal literal: digits, an optional point with digits, an optional
  exponent; at least one digit before the exponent. Its value is exact.
\<close>

definition parse_float_literal :: "string \<Rightarrow> rat option" where
  "parse_float_literal body =
     (let ip = takeWhile is_digit body;
          r1 = dropWhile is_digit body;
          (fp, r2) = (case r1 of
                        [] \<Rightarrow> ([], [])
                      | c # t \<Rightarrow>
                          if c = CHR ''.'' then (takeWhile is_digit t, dropWhile is_digit t)
                          else ([], r1))
      in if ip = [] \<and> fp = [] then None
         else (case parse_exponent r2 of
                 None \<Rightarrow> None
               | Some ex \<Rightarrow>
                   Some (of_int (digits_value (ip @ fp)) * scale 10 (ex - int (length fp)))))"

definition float_of_str :: "string \<Rightarrow> error + pyfloat" where
  "float_of_str s =
     (case drop_underscores (CHR 0x00) (strip (map space_to_ascii s)) of
        None \<Rightarrow> Inl ValueError
      | Some u \<Rightarrow>
          (case split_sign u of
             (neg, body) \<Rightarrow>
               if map lower body = ''inf'' \<or> map lower body = ''infinity'' then Inr (Infinity neg)
               else if map lower body = ''nan'' then Inr NaN
               else (case parse_float_literal body of
                       None \<Rightarrow> Inl ValueError
                     | Some x \<Rightarrow> Inr (round_to_double (if neg then - x else x)))))"

text \<open>\<^verbatim>\<open>round(x)\<close> of a float, to an integer.\<close>

definition py_round :: "pyfloat \<Rightarrow> error + int" where
  "py_round x =
     (case x of
        Finite r \<Rightarrow> Inr (round_half_even r)
      | Infinity _ \<Rightarrow> Inl OverflowError
      | NaN \<Rightarrow> Inl ValueError)"

text \<open>\<^verbatim>\<open>a / b\<close> on two integers: the quotient, rounded once.\<close>

definition py_truediv :: "int \<Rightarrow> int \<Rightarrow> error + pyfloat" where
  "py_truediv a b =
     (if b = 0 then Inl ZeroDivisionError
      else (case round_to_double (of_int a / of_int b) of
              Finite r \<Rightarrow> Inr (Finite r)
            | _ \<Rightarrow> Inl OverflowError))"

text \<open>\<^verbatim>\<open>x * y\<close> on two floats: never raises.\<close>

definition float_mul :: "pyfloat \<Rightarrow> pyfloat \<Rightarrow> pyfloat" where
  "float_mul x y =
     (case (x, y) of
        (Finite a, Finite b) \<Rightarrow> round_to_double (a * b)
      | (Finite a, Infinity n) \<Rightarrow> if a = 0 then NaN else Infinity ((a < 0) \<noteq> n)
      | (Infinity n, Finite b) \<Rightarrow> if b = 0 then NaN else Infinity (n \<noteq> (b < 0))
      | (Infinity m, Infinity n) \<Rightarrow> Infinity (m \<noteq> n)
      | _ \<Rightarrow> NaN)"

text \<open>\<^verbatim>\<open>x > y\<close> on two floats: false as soon as one is not a number.\<close>

definition float_gt :: "pyfloat \<Rightarrow> pyfloat \<Rightarrow> bool" where
  "float_gt x y =
     (case (x, y) of
        (Finite a, Finite b) \<Rightarrow> b < a
      | (Finite a, Infinity n) \<Rightarrow> n
      | (Infinity m, Finite b) \<Rightarrow> \<not> m
      | (Infinity m, Infinity n) \<Rightarrow> \<not> m \<and> n
      | _ \<Rightarrow> False)"

text \<open>
  \<^verbatim>\<open>round(float('.'.join(str(elem) for elem in rows[0])))\<close>, the expression every
  derived-scalar check applies to the result of a query.
\<close>

definition round_float_join :: "row list \<Rightarrow> error + int" where
  "round_float_join rows =
     (case first_row rows of
        Inl e \<Rightarrow> Inl e
      | Inr r \<Rightarrow>
          (case float_of_str (join ''.'' (map str_int r)) of
             Inl e \<Rightarrow> Inl e
           | Inr x \<Rightarrow> py_round x))"

subsection \<open>Calls into the other modules\<close>

text \<open>
  The counting helpers (\<^verbatim>\<open>count_unique_rows_table\<close> and its siblings) are one field of
  the executor, indexed by the method's name and its arguments; each returns all rows of
  its query. A call without the \<^verbatim>\<open>sansTran\<close> argument runs with the default
  \<^verbatim>\<open>False\<close>.
\<close>

definition self_helper :: "'w executor \<Rightarrow> string \<Rightarrow> string list \<Rightarrow> ('w, row list) action" where
  "self_helper ex name args = call (Helper name args) (count_rows_helper ex name args)"

definition count_unique_rows_table :: "'w executor \<Rightarrow> string \<Rightarrow> string \<Rightarrow> string \<Rightarrow> ('w, row list) action" where
  "count_unique_rows_table ex schema_name table_name unique_key =
     self_helper ex ''count_unique_rows_table'' [schema_name, table_name, unique_key]"

definition count_unique_rows_table_argument ::
  "'w executor \<Rightarrow> string \<Rightarrow> string \<Rightarrow> string \<Rightarrow> string \<Rightarrow> ('w, row list) action" where
  "count_unique_rows_table_argument ex schema_name table_name unique_key argument =
     self_helper ex ''count_unique_rows_table_argument''
       [schema_name, table_name, unique_key, argument]"

definition count_object_rows_table :: "'w executor \<Rightarrow> string \<Rightarrow> string \<Rightarrow> ('w, row list) action" where
  "count_object_rows_table ex schema_name table_name =
     self_helper ex ''count_object_rows_table'' [schema_name, table_name]"

definition count_found_rows_table ::
  "'w executor \<Rightarrow> string \<Rightarrow> string \<Rightarrow> string \<Rightarrow> string \<Rightarrow> string \<Rightarrow> ('w, row list) action" where
  "count_found_rows_table ex schema_name table_name unique_key foreign_table_name foreign_key =
     self_helper ex ''count_found_rows_table''
       [schema_name, table_name, unique_key, foreign_table_name, foreign_key]"

definition count_found_rows_table_argument ::
  "'w executor \<Rightarrow> string \<Rightarrow> string \<Rightarrow> string \<Rightarrow> string \<Rightarrow> string \<Rightarrow> string
     \<Rightarrow> ('w, row list) action" where
  "count_found_rows_table_argument ex schema_name table_name unique_key foreign_table_name
       foreign_key argument =
     self_helper ex ''count_found_rows_table_argument''
       [schema_name, table_name, unique_key, foreign_table_name, foreign_key, argument]"

definition count_found_rows_table_withClause ::
  "'w executor \<Rightarrow> string \<Rightarrow> string \<Rightarrow> string \<Rightarrow> string \<Rightarrow> string \<Rightarrow> ('w, row list) action" where
  "count_found_rows_table_withClause ex schema_name table_name unique_key foreign_table_name
       foreign_key =
     self_helper ex ''count_found_rows_table_withClause''
       [schema_name, table_name, unique_key, foreign_table_name, foreign_key]"

definition self_execute_sql_script :: "'w executor \<Rightarrow> string \<Rightarrow> ('w, unit) action" where
  "self_execute_sql_script ex script = call (ExecuteSqlScript script) (execute_sql_script ex script)"

definition self_open_sql :: "'w executor \<Rightarrow> string \<Rightarrow> ('w, string) action" where
  "self_open_sql ex sqlScriptFileName = call (OpenSql sqlScriptFileName) (open_sql ex sqlScriptFileName)"

definition self_compare_tables ::
  "'w executor \<Rightarrow> string \<Rightarrow> string \<Rightarrow> string \<Rightarrow> string \<Rightarrow> ('w, int) action" where
  "self_compare_tables ex a b c d = call (CompareTables a b c d) (compare_tables ex a b c d)"

definition self_cursor :: "'w executor \<Rightarrow> ('w, unit) action" where
  "self_cursor ex = call Cursor (cursor ex)"

subsection \<open>Schema existence check\<close>

text \<open>The statement \<^verbatim>\<open>table_must_exist\<close> builds for a driver module and a table name.\<close>

definition table_must_exist_statement :: "string \<Rightarrow> string \<Rightarrow> string" where
  "table_must_exist_statement module_name tableName =
     (if module_name \<in> set [''cx_Oracle''] then
        ''SELECT * FROM all_objects WHERE object_type IN ('TABLE','VIEW') AND owner = SYS_CONTEXT('USERENV', 'SESSION_USER') AND object_name = UPPER(''
          @ quote @ tableName @ quote @ '')''
      else if module_name \<in> set [''sqlite3''] then
        ''SELECT name FROM sqlite_master WHERE type='table' AND name=''
          @ quote @ tableName @ quote @ '' COLLATE NOCASE''
      else if module_name \<in> set [''ibm_db'', ''ibm_db_dbi''] then
        ''SELECT name FROM SYSIBM.SYSTABLES WHERE type='T' AND name=UPPER(''
          @ quote @ tableName @ quote @ '')''
      else
        ''SELECT * FROM information_schema.tables WHERE table_name=''
          @ quote @ tableName @ quote)"

definition table_must_exist :: "'w executor \<Rightarrow> string \<Rightarrow> bool \<Rightarrow> ('w, unit) action" where
  "table_must_exist ex tableName sansTran =
     seq (logger_info (''Executing : Table Must Exist  |  '' @ tableName @ '' ''))
       (\<lambda>_. seq (self_row_count ex
                   (table_must_exist_statement (db_api_module_name ex) tableName) sansTran)
       (\<lambda>num_rows. if num_rows = 0
          then raise (AssertionError (''Table '' @ quote @ tableName @ quote
                 @ '' does not exist in the db''))
          else return ()))"

subsection \<open>Structural comparison after a deployment\<close>

definition compare_table_structure_snowflake_query ::
  "string \<Rightarrow> string \<Rightarrow> string \<Rightarrow> string \<Rightarrow> string" where
  "compare_table_structure_snowflake_query test_schema_name test_table_name result_schema_name
       result_table_name =
     ''select * from information_schema.columns columns_left full outer join information_schema.columns columns_right on columns_left.column_name = columns_right.column_name where columns_left.table_schema = ''
       @ quote @ test_schema_name @ quote
       @ '' and columns_left.table_name = '' @ quote @ test_table_name @ quote
       @ '' and columns_right.table_schema = '' @ quote @ result_schema_name @ quote
       @ '' and columns_right.table_name = '' @ quote @ result_table_name @ quote
       @ '' and (columns_left.data_type <> columns_right.data_type or columns_left.ordinal_position <> columns_right.ordinal_position)''"

definition compare_table_structure_snowflake ::
  "'w executor \<Rightarrow> string \<Rightarrow> string \<Rightarrow> string \<Rightarrow> string \<Rightarrow> string \<Rightarrow> ('w, unit) action" where
  "compare_table_structure_snowflake ex script test_schema_name test_table_name
       result_schema_name result_table_name =
     seq (logger_info (''Executing : Compare Table Structure for table |  '' @ test_table_name @ '' ''))
       (\<lambda>_. seq (self_execute_sql_script ex script)
       (\<lambda>_. seq (self_row_count ex
                   (compare_table_structure_snowflake_query test_schema_name test_table_name
                      result_schema_name result_table_name) False)
       (\<lambda>num_rows. if num_rows > 0
          then raise (AssertionError (''Table structure of table '' @ quote @ test_table_name
                 @ quote @ '' does not match expected result. The number of faulty columns is ''
                 @ quote @ str_int num_rows @ quote))
          else return ())))"

definition check_query_result ::
  "'w executor \<Rightarrow> string \<Rightarrow> string \<Rightarrow> string \<Rightarrow> string \<Rightarrow> string \<Rightarrow> bool \<Rightarrow> ('w, unit) action" where
  "check_query_result ex script test_schema_name test_table_name result_schema_name
       result_table_name sansTrans =
     seq (logger_info (''Executing : Compare Query Result |  '' @ script @ '' ''))
       (\<lambda>_. seq (self_execute_sql_script ex script)
       (\<lambda>_. seq (self_compare_tables ex test_schema_name test_table_name result_schema_name
                   result_table_name)
       (\<lambda>num_rows. if num_rows > 0
          then raise (AssertionError (''Result of script '' @ quote @ script @ quote
                 @ '' does not match expected result. The number of faulty rows is ''
                 @ quote @ str_int num_rows @ quote))
          else return ())))"

subsection \<open>Row counts of a script file\<close>

definition script_row_count_is_greater_than_x ::
  "'w executor \<Rightarrow> string \<Rightarrow> pyvalue \<Rightarrow> bool \<Rightarrow> ('w, unit) action" where
  "script_row_count_is_greater_than_x ex sqlScriptFileName numRows sansTran =
     seq (self_open_sql ex sqlScriptFileName)
       (\<lambda>selectStatement. row_count_is_greater_than_x ex selectStatement numRows False)"

definition script_row_count_is_equal_to_x ::
  "'w executor \<Rightarrow> string \<Rightarrow> pyvalue \<Rightarrow> bool \<Rightarrow> ('w, unit) action" where
  "script_row_count_is_equal_to_x ex sqlScriptFileName numRows sansTran =
     seq (self_open_sql ex sqlScriptFileName)
       (\<lambda>selectStatement. row_count_is_equal_to_x ex selectStatement numRows False)"

subsection \<open>Threshold check\<close>

text \<open>
  The message of the failure prints a float; \<open>str_float\<close> stands for Python's
  \<^verbatim>\<open>str\<close> on floats, which no property below depends on.
\<close>

definition count_empty_column_value_percentage ::
  "(pyfloat \<Rightarrow> string) \<Rightarrow> 'w executor \<Rightarrow> string \<Rightarrow> string \<Rightarrow> string \<Rightarrow> string
     \<Rightarrow> ('w, unit) action" where
  "count_empty_column_value_percentage str_float ex schema_name table_name column_name percentage =
     (let query_total = ''SELECT * FROM '' @ schema_name @ ''.'' @ table_name;
          query_column = ''SELECT * FROM '' @ schema_name @ ''.'' @ table_name
                           @ '' WHERE '' @ column_name @ '' IS NULL''
      in seq (self_row_count ex query_total False)
        (\<lambda>num_rows_total. seq (self_row_count ex query_column False)
        (\<lambda>num_rows_columns. seq (lift (py_truediv num_rows_columns num_rows_total))
        (\<lambda>ratio. let percentage_calculated = float_mul ratio (Finite 100)
           in seq (lift (float_of_str percentage))
        (\<lambda>threshold. if float_gt percentage_calculated threshold
           then raise (AssertionError (''Percentage of EMPTY columns is '' @ quote
                  @ str_float percentage_calculated @ quote
                  @ '' is higher than allow percentage '' @ quote @ percentage @ quote))
           else return ())))))"

subsection \<open>Derived-scalar comparisons\<close>

definition row_unique_check2 :: "'w executor \<Rightarrow> string \<Rightarrow> string \<Rightarrow> ('w, unit) action" where
  "row_unique_check2 ex count_key count_total =
     seq (self_open_sql ex count_key)
       (\<lambda>selectStatement1. seq (self_open_sql ex count_total)
       (\<lambda>selectStatement2. seq (self_cursor ex)
       (\<lambda>_. seq (self_query ex selectStatement1 False)
       (\<lambda>result_key. seq (self_query ex selectStatement2 False)
       (\<lambda>result_total. seq (lift (round_float_join result_key))
       (\<lambda>rowunique. seq (lift (round_float_join result_total))
       (\<lambda>objectrows. if rowunique \<noteq> objectrows
          then raise (AssertionError (''Key is not unique, total rows: '' @ quote
                 @ str_int objectrows @ quote @ '', key rows: '' @ quote
                 @ str_int rowunique @ quote))
          else return ())))))))"

definition value_variance_check ::
  "'w executor \<Rightarrow> string \<Rightarrow> string \<Rightarrow> string \<Rightarrow> string \<Rightarrow> ('w, unit) action" where
  "value_variance_check ex schema_name table_name unique_key field =
     seq (logger_info (''Executing : Values variance check: |  '' @ table_name @ '' ''))
       (\<lambda>_. seq (count_unique_rows_table ex schema_name table_name unique_key)
       (\<lambda>result_uniqueRows. seq (lift (round_float_join result_uniqueRows))
       (\<lambda>uniqueRows. seq (lift (int_of_str field))
       (\<lambda>int_field.
          if int_field = 0 then
            (if uniqueRows \<noteq> int_field
             then raise (AssertionError (''Expected: '' @ quote @ field @ quote
                    @ ''   Actual: '' @ quote @ str_int uniqueRows @ quote))
             else return ())
          else if int_field = 1 then
            (if uniqueRows \<noteq> int_field
             then raise (AssertionError (''Expected: '' @ quote @ field @ quote
                    @ ''   Actual: '' @ quote @ str_int uniqueRows @ quote))
             else return ())
          else if int_field = 2 then
            (if uniqueRows < int_field
             then raise (AssertionError (''Expected: '' @ quote @ field @ quote
                    @ ''   Actual: '' @ quote @ str_int uniqueRows @ quote))
             else return ())
          else raise (AssertionError ''Check 4th argument in TC, expected value 0, 1 or 2'')))))"

definition object_unique_message :: "int \<Rightarrow> string \<Rightarrow> int \<Rightarrow> string" where
  "object_unique_message objectRows unique_key uniqueRows =
     ''Object rows: '' @ quote @ str_int objectRows @ quote @ '', unique rows '' @ quote
       @ unique_key @ quote @ '': '' @ quote @ str_int uniqueRows @ quote"

definition row_unique_check :: "'w executor \<Rightarrow> string \<Rightarrow> string \<Rightarrow> string \<Rightarrow> ('w, unit) action" where
  "row_unique_check ex schema_name table_name unique_key =
     seq (logger_info (''Executing : Row unique check for table: |  '' @ table_name @ '' ''))
       (\<lambda>_. seq (count_unique_rows_table ex schema_name table_name unique_key)
       (\<lambda>result_uniqueRows. seq (count_object_rows_table ex schema_name table_name)
       (\<lambda>result_objectRows. seq (lift (round_float_join result_uniqueRows))
       (\<lambda>uniqueRows. seq (lift (round_float_join result_objectRows))
       (\<lambda>objectRows. seq (logger_info (object_unique_message objectRows unique_key uniqueRows))
       (\<lambda>_. if uniqueRows \<noteq> objectRows
          then raise (AssertionError (object_unique_message objectRows unique_key uniqueRows))
          else return ()))))))"

definition unique_found_message :: "string \<Rightarrow> string \<Rightarrow> int \<Rightarrow> string \<Rightarrow> int \<Rightarrow> string" where
  "unique_found_message kind unique_key uniqueRows foreign_key foundRows =
     ''Unique rows '' @ quote @ unique_key @ quote @ '': '' @ quote @ str_int uniqueRows @ quote
       @ '', '' @ kind @ '' rows '' @ quote @ foreign_key @ quote @ '': '' @ quote
       @ str_int foundRows @ quote"

definition dimensional_integrity_check_found ::
  "'w executor \<Rightarrow> string \<Rightarrow> string \<Rightarrow> string \<Rightarrow> string \<Rightarrow> string \<Rightarrow> ('w, unit) action" where
  "dimensional_integrity_check_found ex schema_name table_name unique_key foreign_table_name
       foreign_key =
     seq (logger_info (''Executing : Dimensional integrity check: | Between tables ''
            @ table_name @ '' and '' @ foreign_table_name))
       (\<lambda>_. seq (count_found_rows_table ex schema_name table_name unique_key foreign_table_name
                   foreign_key)
       (\<lambda>result_foundRows. seq (count_unique_rows_table ex schema_name table_name unique_key)
       (\<lambda>result_uniqueRows. seq (lift (round_float_join result_foundRows))
       (\<lambda>foundRows. seq (lift (round_float_join result_uniqueRows))
       (\<lambda>uniqueRows. seq (logger_info
                   (unique_found_message ''found'' unique_key uniqueRows foreign_key foundRows))
       (\<lambda>_. if foundRows \<noteq> uniqueRows
          then raise (AssertionError
                 (unique_found_message ''found'' unique_key uniqueRows foreign_key foundRows))
          else return ()))))))"

definition dimensional_integrity_check_found_joinArgument ::
  "'w executor \<Rightarrow> string \<Rightarrow> string \<Rightarrow> string \<Rightarrow> string \<Rightarrow> string \<Rightarrow> string
     \<Rightarrow> ('w, unit) action" where
  "dimensional_integrity_check_found_joinArgument ex schema_name table_name unique_key
       foreign_table_name foreign_key argument =
     seq (logger_info (''Executing : Dimensional integrity check: | Between tables ''
            @ table_name @ '' and '' @ foreign_table_name))
       (\<lambda>_. seq (count_found_rows_table_argument ex schema_name table_name unique_key
                   foreign_table_name foreign_key argument)
       (\<lambda>result_foundRows. seq (count_unique_rows_table ex schema_name table_name unique_key)
       (\<lambda>result_uniqueRows. seq (lift (round_float_join result_foundRows))
       (\<lambda>foundRows. seq (lift (round_float_join result_uniqueRows))
       (\<lambda>uniqueRows. seq (logger_info
                   (unique_found_message ''found'' unique_key uniqueRows foreign_key foundRows))
       (\<lambda>_. if foundRows \<noteq> uniqueRows
          then raise (AssertionError
                 (unique_found_message ''found'' unique_key uniqueRows foreign_key foundRows))
          else return ()))))))"

definition dimensional_integrity_check_found_argument ::
  "'w executor \<Rightarrow> string \<Rightarrow> string \<Rightarrow> string \<Rightarrow> string \<Rightarrow> string \<Rightarrow> string
     \<Rightarrow> ('w, unit) action" where
  "dimensional_integrity_check_found_argument ex schema_name table_name unique_key argument
       foreign_table_name foreign_key =
     seq (logger_info (''Executing : Dimensional integrity check: | Between tables ''
            @ table_name @ '' and '' @ foreign_table_name))
       (\<lambda>_. seq (count_found_rows_table ex schema_name table_name unique_key foreign_table_name
                   foreign_key)
       (\<lambda>result_foundRows. seq (count_unique_rows_table_argument ex schema_name table_name
                   unique_key argument)
       (\<lambda>result_uniqueRows. seq (lift (round_float_join result_foundRows))
       (\<lambda>foundRows. seq (lift (round_float_join result_uniqueRows))
       (\<lambda>uniqueRows. seq (logger_info
                   (unique_found_message ''found'' unique_key uniqueRows foreign_key foundRows))
       (\<lambda>_. if foundRows \<noteq> uniqueRows
          then raise (AssertionError
                 (unique_found_message ''found'' unique_key uniqueRows foreign_key foundRows))
          else return ()))))))"

definition dimensional_integrity_check_found_withClause_argument ::
  "'w executor \<Rightarrow> string \<Rightarrow> string \<Rightarrow> string \<Rightarrow> string \<Rightarrow> string \<Rightarrow> string
     \<Rightarrow> ('w, unit) action" where
  "dimensional_integrity_check_found_withClause_argument ex schema_name table_name unique_key
       argument foreign_table_name foreign_key =
     seq (logger_info (''Executing : Dimensional integrity check: | Between tables ''
            @ table_name @ '' and '' @ foreign_table_name))
       (\<lambda>_. seq (count_found_rows_table_withClause ex schema_name table_name unique_key
                   foreign_table_name foreign_key)
       (\<lambda>result_foundRows. seq (count_unique_rows_table_argument ex schema_name table_name
                   unique_key argument)
       (\<lambda>result_uniqueRows. seq (lift (round_float_join result_foundRows))
       (\<lambda>foundRows. seq (lift (round_float_join result_uniqueRows))
       (\<lambda>uniqueRows. seq (logger_info
                   (unique_found_message ''found'' unique_key uniqueRows foreign_key foundRows))
       (\<lambda>_. if foundRows \<noteq> uniqueRows
          then raise (AssertionError
                 (unique_found_message ''found'' unique_key uniqueRows foreign_key foundRows))
          else return ()))))))"

definition dimensional_integrity_check_potential ::
  "'w executor \<Rightarrow> string \<Rightarrow> string \<Rightarrow> string \<Rightarrow> string \<Rightarrow> ('w, unit) action" where
  "dimensional_integrity_check_potential ex schema_name table_name unique_key foreign_key =
     seq (logger_info (''Executing : Dimensional integrity check: | '' @ table_name))
       (\<lambda>_. seq (count_unique_rows_table ex schema_name table_name foreign_key)
       (\<lambda>result_potentialRows. seq (count_unique_rows_table ex schema_name table_name unique_key)
       (\<lambda>result_uniqueRows. seq (lift (round_float_join result_potentialRows))
       (\<lambda>potentialRows. seq (lift (round_float_join result_uniqueRows))
       (\<lambda>uniqueRows. seq (logger_info
                   (unique_found_message ''found'' unique_key uniqueRows foreign_key potentialRows))
       (\<lambda>_. if potentialRows \<noteq> uniqueRows
          then raise (AssertionError
                 (unique_found_message ''potential'' unique_key uniqueRows foreign_key
                    potentialRows))
          else return ()))))))"

subsection \<open>What the testable properties speak of\<close>

text \<open>
  The scalar of a result row in the words of the specification: the column values joined
  with a dot, the text parsed as a float, the float rounded to the nearest integer.
\<close>

definition scalar_flatten :: "row \<Rightarrow> error + int" where
  "scalar_flatten r =
     (case float_of_str (join ''.'' (map str_int r)) of
        Inl e \<Rightarrow> Inl e
      | Inr x \<Rightarrow> py_round x)"

text \<open>
  Two scalars compared for equality, the first one evaluated first: an error of either
  ends the check, a difference is an assertion failure with the given message.
\<close>

definition assert_equal_scalars ::
  "(error + int) \<Rightarrow> (error + int) \<Rightarrow> (int \<Rightarrow> int \<Rightarrow> string) \<Rightarrow> error + unit" where
  "assert_equal_scalars a b msg =
     (case a of
        Inl e \<Rightarrow> Inl e
      | Inr x \<Rightarrow>
          (case b of
             Inl e \<Rightarrow> Inl e
           | Inr y \<Rightarrow> if x \<noteq> y then Inl (AssertionError (msg x y)) else Inr ()))"

text \<open>
  A decimal digit as \<^verbatim>\<open>str\<close> writes it: an ASCII digit, which is neither a space nor
  a sign.
\<close>

definition plain_digit :: "char \<Rightarrow> bool" where
  "plain_digit c =
     (is_digit c \<and> (of_char c :: nat) < 128 \<and> \<not> is_space c \<and> c \<noteq> CHR ''-'' \<and> c \<noteq> CHR ''+'')"

text \<open>
  \<^verbatim>\<open>(null_rows / total_rows) * 100\<close> as Python computes it for a table that has rows:
  the quotient rounded to a float, then the product rounded to a float.
\<close>

definition empty_percentage :: "int \<Rightarrow> int \<Rightarrow> pyfloat" where
  "empty_percentage null_rows total_rows =
     float_mul (round_to_double (of_int null_rows / of_int total_rows)) (Finite 100)"

text \<open>The calls of collaborators in a trace, the log lines left out.\<close>

fun is_log :: "event \<Rightarrow> bool" where
  "is_log (Log _) = True"
| "is_log _ = False"

definition collaborator_calls :: "event list \<Rightarrow> event list" where
  "collaborator_calls tr = filter (\<lambda>e. \<not> is_log e) tr"

fun is_row_count :: "event \<Rightarrow> bool" where
  "is_row_count (RowCount _ _) = True"
| "is_row_count _ = False"

text \<open>The outcome, the connection state and the trace of a check run from a fresh trace.\<close>

definition outcome :: "('w, 'a) action \<Rightarrow> 'w \<Rightarrow> error + 'a" where
  "outcome m w = fst (m (w, []))"

definition final_state :: "('w, 'a) action \<Rightarrow> 'w \<Rightarrow> 'w" where
  "final_state m w = fst (snd (m (w, [])))"

definition trace_of :: "('w, 'a) action \<Rightarrow> 'w \<Rightarrow> event list" where
  "trace_of m w = snd (snd (m (w, [])))"

subsection \<open>An executor to run the checks on\<close>

text \<open>
  A stand-in for the connection, for running a check on concrete data: every statement
  has a fixed list of rows, every script file a fixed text, every counting helper a fixed
  result, and the state of the connection is the list of scripts deployed so far.
\<close>

definition stub_executor ::
  "string \<Rightarrow> (string \<Rightarrow> row list) \<Rightarrow> (string \<Rightarrow> string) \<Rightarrow> (string \<Rightarrow> row list)
     \<Rightarrow> string list executor" where
  "stub_executor module_name tables files helper_rows =
     \<lparr> db_api_module_name = module_name,
       query = (\<lambda>stmt sansTran w. (Inr (tables stmt), w)),
       row_count = (\<lambda>stmt sansTran w. (Inr (int (length (tables stmt))), w)),
       execute_sql_script = (\<lambda>script w. (Inr (), w @ [script])),
       open_sql = (\<lambda>name w. (Inr (files name), w)),
       compare_tables = (\<lambda>a b c d w. (Inr (int (length (tables (a @ ''.'' @ b)))), w)),
       cursor = (\<lambda>w. (Inr (), w)),
       count_rows_helper = (\<lambda>name args w. (Inr (helper_rows name), w)) \<rparr>"

text \<open>The table \<^verbatim>\<open>person\<close> of the keyword documentation, with its single row.\<close>

definition franz_allan :: string where
  "franz_allan = ''SELECT id FROM person WHERE first_name = 'Franz Allan'' @ quote"

definition john :: string where
  "john = ''SELECT id FROM person WHERE first_name = 'John'' @ quote"

definition person_tables :: "string \<Rightarrow> row list" where
  "person_tables stmt =
     (if stmt = franz_allan then [[1]]
      else if stmt = ''SELECT id FROM person'' then [[1]]
      else [])"

definition person_db :: "string list executor" where
  "person_db =
     stub_executor ''sqlite3'' person_tables (\<lambda>name. ''SELECT id FROM person'') (\<lambda>name. [[1]])"

text \<open>A table of ten rows, three of them with an empty \<^verbatim>\<open>last_name\<close>.\<close>

definition ten_rows_three_null :: "string \<Rightarrow> row list" where
  "ten_rows_three_null stmt =
     (if stmt = ''SELECT * FROM main.person'' then replicate 10 [1]
      else if stmt = ''SELECT * FROM main.person WHERE last_name IS NULL'' then replicate 3 [1]
      else [])"

text \<open>Statements that all find two rows.\<close>

definition two_faulty :: "string \<Rightarrow> row list" where
  "two_faulty stmt = [[1], [2]]"

text \<open>An executor on an empty database: no statement and no helper finds a row.\<close>

definition no_rows :: "string \<Rightarrow> row list" where
  "no_rows stmt = []"

definition empty_db :: "string list executor" where
  "empty_db = stub_executor ''sqlite3'' no_rows id no_rows"

text \<open>An executor whose counting helpers all count two.\<close>

definition count_two :: "string \<Rightarrow> row list" where
  "count_two name = [[2]]"

definition two_db :: "string list executor" where
  "two_db = stub_executor ''psycopg2'' no_rows id count_two"

text \<open>
  An executor whose unique-row count is the two-column row \<open>(3, 14)\<close> and whose other
  counts are the row \<open>(3,)\<close>; the script file \<^verbatim>\<open>key.sql\<close> selects the first.
\<close>

definition counts_tables :: "string \<Rightarrow> row list" where
  "counts_tables stmt = (if stmt = ''key.sql'' then [[3, 14]] else [[3]])"

definition counts_helpers :: "string \<Rightarrow> row list" where
  "counts_helpers name = (if name = ''count_unique_rows_table'' then [[3, 14]] else [[3]])"

definition counts_db :: "string list executor" where
  "counts_db = stub_executor ''sqlite3'' counts_tables id counts_helpers"

text \<open>An executor whose counts are all the row \<open>(3,)\<close>.\<close>

definition count_three :: "string \<Rightarrow> row list" where
  "count_three name = [[3]]"

definition three_db :: "string list executor" where
  "three_db = stub_executor ''sqlite3'' count_three id count_three"

section \<open>Running a check\<close>

lemma seq_logger_info: "seq (logger_info m) f (w, tr) = f () (w, tr @ [Log m])"
  by (simp add: seq_def logger_info_def)

lemma seq_call_Inr: "g w = (Inr v, w') \<Longrightarrow> seq (call ev g) f (w, tr) = f v (w', tr @ [ev])"
  by (simp add: seq_def call_def)

lemma seq_call_Inl: "g w = (Inl e, w') \<Longrightarrow> seq (call ev g) f (w, tr) = (Inl e, (w', tr @ [ev]))"
  by (simp add: seq_def call_def)

lemma seq_lift_Inr: "seq (lift (Inr v)) f s = f v s"
  by (simp add: seq_def lift_def)

lemma seq_lift_Inl: "seq (lift (Inl e)) f s = (Inl e, s)"
  by (simp add: seq_def lift_def)

lemma return_apply: "return v s = (Inr v, s)"
  by (simp add: return_def)

lemma raise_apply: "raise e s = (Inl e, s)"
  by (simp add: raise_def)

lemmas run = seq_logger_info seq_call_Inr seq_call_Inl seq_lift_Inr seq_lift_Inl return_apply
  raise_apply self_query_def self_row_count_def

lemma seq_lift_any:
  "seq (lift r) f s = (case r of Inl e \<Rightarrow> (Inl e, s) | Inr v \<Rightarrow> f v s)"
  by (cases r) (simp_all add: seq_lift_Inl seq_lift_Inr)

lemmas calls = self_helper_def self_execute_sql_script_def self_open_sql_def
  self_compare_tables_def self_cursor_def

lemma sublist_mid: "sublist q (a @ b @ q @ c)"
  by (metis append.assoc sublist_appendI)

lemma sublist_skip: "sublist x ys \<Longrightarrow> sublist x (xs @ ys)"
  by (metis sublist_append)

section \<open>Existence checks\<close>

text \<open>
  C3. When the query returns at least one row, \<open>check_if_exists_in_database\<close> returns
  silently and \<open>check_if_not_exists_in_database\<close> raises an AssertionError; when it
  returns no row, the reverse. The message of each failure contains the text of the query.
\<close>

theorem existence_checks:
  "query ex q sansTran w = (Inr rows, w') \<Longrightarrow>
     (rows \<noteq> [] \<longrightarrow>
        fst (check_if_exists_in_database ex q sansTran (w, tr)) = Inr () \<and>
        (\<exists>msg. fst (check_if_not_exists_in_database ex q sansTran (w, tr)) = Inl (AssertionError msg)
           \<and> sublist q msg)) \<and>
     (rows = [] \<longrightarrow>
        fst (check_if_not_exists_in_database ex q sansTran (w, tr)) = Inr () \<and>
        (\<exists>msg. fst (check_if_exists_in_database ex q sansTran (w, tr)) = Inl (AssertionError msg)
           \<and> sublist q msg))"
  by (simp add: check_if_exists_in_database_def check_if_not_exists_in_database_def run
      sublist_mid del: append.simps)

text \<open>
  On the table \<open>person\<close>: the query for Franz Allan finds his row, the query for John
  finds none.
\<close>

theorem existence_checks_witness:
  "fst (check_if_exists_in_database person_db franz_allan False ([], [])) = Inr () \<and>
   (\<exists>msg. fst (check_if_not_exists_in_database person_db franz_allan False ([], []))
      = Inl (AssertionError msg) \<and> sublist franz_allan msg) \<and>
   fst (check_if_not_exists_in_database person_db john False ([], [])) = Inr () \<and>
   (\<exists>msg. fst (check_if_exists_in_database person_db john False ([], []))
      = Inl (AssertionError msg) \<and> sublist john msg)"
proof -
  have a: "query person_db franz_allan False [] = (Inr [[1]], [])"
    by (simp add: person_db_def stub_executor_def person_tables_def)
  have b: "query person_db john False [] = (Inr [], [])"
    by (simp add: person_db_def stub_executor_def person_tables_def john_def franz_allan_def)
  show ?thesis
    using existence_checks [OF a, of "[]"] existence_checks [OF b, of "[]"] by simp
qed

section \<open>Decimal text of an integer and back\<close>

lemma digit_char_numeral:
  "digit_char 0 = CHR ''0''" "digit_char 1 = CHR ''1''" "digit_char 2 = CHR ''2''"
  "digit_char 3 = CHR ''3''" "digit_char 4 = CHR ''4''" "digit_char 5 = CHR ''5''"
  "digit_char 6 = CHR ''6''" "digit_char 7 = CHR ''7''" "digit_char 8 = CHR ''8''"
  "digit_char 9 = CHR ''9''"
  by (simp_all add: digit_char_def char_of_def)

lemma digit_char_props:
  assumes "0 \<le> d" "d < 10"
  shows "plain_digit (digit_char d)" "digit_val (digit_char d) = d"
proof -
  from assms have "d = 0 \<or> d = 1 \<or> d = 2 \<or> d = 3 \<or> d = 4 \<or> d = 5 \<or> d = 6 \<or> d = 7 \<or> d = 8 \<or> d = 9"
    by arith
  then show "plain_digit (digit_char d)" "digit_val (digit_char d) = d"
    by (elim disjE; simp add: digit_char_numeral plain_digit_def is_digit_def digit_val_def is_space_def)+
qed

lemma str_digits_all: "0 \<le> n \<Longrightarrow> list_all plain_digit (str_digits n)"
proof (induction n rule: str_digits.induct)
  case (1 n)
  show ?case
  proof (cases "n < 10")
    case True
    with 1 show ?thesis by (subst str_digits.simps) (simp add: digit_char_props)
  next
    case False
    then have "0 \<le> n div 10" "0 \<le> n mod 10" "n mod 10 < 10" by auto
    with 1 False show ?thesis
      by (subst str_digits.simps) (simp add: digit_char_props)
  qed
qed

lemma str_digits_nonempty: "str_digits n \<noteq> []"
  by (subst str_digits.simps) simp

lemma parse_digits_append:
  "list_all is_digit ds \<Longrightarrow>
     parse_digits acc (ds @ rest) = parse_digits (foldl (\<lambda>a c. a * 10 + digit_val c) acc ds) rest"
  by (induction ds arbitrary: acc) auto

lemma parse_decimal_digits:
  "ds \<noteq> [] \<Longrightarrow> list_all is_digit ds \<Longrightarrow> parse_decimal ds = Some (digits_value ds)"
  using parse_digits_append [of "tl ds" "digit_val (hd ds)" "[]"]
  by (cases ds) (auto simp: parse_decimal_def digits_value_def)

lemma digits_value_str_digits: "0 \<le> n \<Longrightarrow> digits_value (str_digits n) = n"
proof (induction n rule: str_digits.induct)
  case (1 n)
  show ?case
  proof (cases "n < 10")
    case True
    with 1 show ?thesis
      by (subst str_digits.simps) (simp add: digits_value_def digit_char_props)
  next
    case False
    then have "0 \<le> n div 10" "0 \<le> n mod 10" "n mod 10 < 10" by auto
    with 1 False show ?thesis
      by (subst str_digits.simps) (simp add: digits_value_def digit_char_props)
  qed
qed

lemma strip_plain:
  assumes "s \<noteq> []" "\<not> is_space (hd s)" "\<not> is_space (last s)"
  shows "strip s = s"
proof -
  have a: "dropWhile is_space s = s"
    using assms by (cases s) auto
  obtain xs x where s: "s = xs @ [x]"
    using assms(1) by (cases s rule: rev_cases) auto
  have "\<not> is_space x" using assms(3) s by simp
  then have "dropWhile is_space (rev s) = rev s"
    by (simp add: s)
  with a show ?thesis by (simp add: strip_def)
qed

lemma plain_digit_list:
  assumes "list_all plain_digit ds" "ds \<noteq> []"
  shows "list_all is_digit ds" "list_all (\<lambda>c. (of_char c :: nat) < 128) ds"
    "\<not> is_space (hd ds)" "\<not> is_space (last ds)" "hd ds \<noteq> CHR ''-''" "hd ds \<noteq> CHR ''+''"
  using assms by (auto simp: list_all_iff plain_digit_def)

lemma long_from_string_digits:
  assumes "list_all plain_digit ds" "ds \<noteq> []"
  shows "long_from_string ds = Inr (digits_value ds)"
    and "long_from_string (CHR ''-'' # ds) = Inr (- digits_value ds)"
proof -
  note p = plain_digit_list [OF assms]
  have "strip ds = ds" using p assms(2) by (simp add: strip_plain)
  moreover have "split_sign ds = (False, ds)"
    using p assms(2) by (cases ds) (auto simp: split_sign_def)
  ultimately show "long_from_string ds = Inr (digits_value ds)"
    using p assms(2) by (simp add: long_from_string_def parse_decimal_digits)
  have "strip (CHR ''-'' # ds) = CHR ''-'' # ds"
    using p assms(2) by (intro strip_plain) (auto simp: is_space_def)
  then show "long_from_string (CHR ''-'' # ds) = Inr (- digits_value ds)"
    using p assms(2) by (simp add: long_from_string_def split_sign_def parse_decimal_digits)
qed

lemma int_of_encoded_str_int: "int_of_encoded (PyStr (str_int n)) = Inr n"
proof (cases "n < 0")
  case True
  then have pos: "0 \<le> - n" by simp
  note p = plain_digit_list [OF str_digits_all [OF pos] str_digits_nonempty]
  have "encode_ascii (PyStr (str_int n)) = Inr (str_int n)"
    using True p by (simp add: encode_ascii_def str_int_def)
  then show ?thesis
    using True long_from_string_digits(2) [OF str_digits_all [OF pos] str_digits_nonempty]
      digits_value_str_digits [OF pos]
    by (simp add: int_of_encoded_def str_int_def)
next
  case False
  then have pos: "0 \<le> n" by simp
  note p = plain_digit_list [OF str_digits_all [OF pos] str_digits_nonempty]
  have "encode_ascii (PyStr (str_int n)) = Inr (str_int n)"
    using False p by (simp add: encode_ascii_def str_int_def)
  then show ?thesis
    using False long_from_string_digits(1) [OF str_digits_all [OF pos] str_digits_nonempty]
      digits_value_str_digits [OF pos]
    by (simp add: int_of_encoded_def str_int_def)
qed

section \<open>Row-count comparisons\<close>

lemma row_count_is_equal_to_x_run:
  assumes "row_count ex q sansTran w = (Inr rc, w')"
  shows "\<exists>msg line. sublist (str_int rc) msg \<and>
     row_count_is_equal_to_x ex q numRows sansTran (w, tr) =
       (case int_of_encoded numRows of
          Inl e \<Rightarrow> Inl e
        | Inr n \<Rightarrow> if rc = n then Inr () else Inl (AssertionError msg),
        (w', tr @ [Log line, RowCount q sansTran]))"
  apply (rule exI [of _ "''Expected same number of rows to be returned from '' @ quote
                 @ q @ quote @ '' than the returned rows of '' @ str_int rc"])
  apply (rule exI [of _ "''Executing : Row Count Is Equal To X  |  '' @ q @ ''  |  '' @ py_str numRows @ '' ''"])
  using assms
  apply (cases "int_of_encoded numRows")
   apply (simp_all add: row_count_is_equal_to_x_def run sublist_skip del: append.simps)
  done

lemma row_count_is_greater_than_x_run:
  assumes "row_count ex q sansTran w = (Inr rc, w')"
  shows "\<exists>msg line. sublist (str_int rc) msg \<and>
     row_count_is_greater_than_x ex q numRows sansTran (w, tr) =
       (case int_of_encoded numRows of
          Inl e \<Rightarrow> Inl e
        | Inr n \<Rightarrow> if rc > n then Inr () else Inl (AssertionError msg),
        (w', tr @ [Log line, RowCount q sansTran]))"
  apply (rule exI [of _ "''Expected more rows to be returned from '' @ quote
                 @ q @ quote @ '' than the returned rows of '' @ str_int rc"])
  apply (rule exI [of _ "''Executing : Row Count Is Greater Than X  |  '' @ q @ ''  |  '' @ py_str numRows @ '' ''"])
  using assms
  apply (cases "int_of_encoded numRows")
   apply (simp_all add: row_count_is_greater_than_x_def run sublist_skip del: append.simps)
  done

lemma row_count_is_less_than_x_run:
  assumes "row_count ex q sansTran w = (Inr rc, w')"
  shows "\<exists>msg line. sublist (str_int rc) msg \<and>
     row_count_is_less_than_x ex q numRows sansTran (w, tr) =
       (case int_of_encoded numRows of
          Inl e \<Rightarrow> Inl e
        | Inr n \<Rightarrow> if rc < n then Inr () else Inl (AssertionError msg),
        (w', tr @ [Log line, RowCount q sansTran]))"
  apply (rule exI [of _ "''Expected less rows to be returned from '' @ quote
                 @ q @ quote @ '' than the returned rows of '' @ str_int rc"])
  apply (rule exI [of _ "''Executing : Row Count Is Less Than X  |  '' @ q @ ''  |  '' @ py_str numRows @ '' ''"])
  using assms
  apply (cases "int_of_encoded numRows")
   apply (simp_all add: row_count_is_less_than_x_def run sublist_skip del: append.simps)
  done


lemma person_row_count: "row_count person_db ''SELECT id FROM person'' False [] = (Inr 1, [])"
  by (simp add: person_db_def stub_executor_def person_tables_def franz_allan_def)



lemma parse_digits_reject:
  "x \<in> set s \<Longrightarrow> \<not> is_digit x \<Longrightarrow> x \<noteq> CHR ''_'' \<Longrightarrow> parse_digits acc s = None"
proof (induction acc s rule: parse_digits.induct)
  case (1 acc)
  then show ?case by simp
next
  case (2 acc c cs)
  show ?case
  proof (cases "is_digit c")
    case True
    with "2.prems" have "x \<in> set cs" by auto
    then have "parse_digits (acc * 10 + digit_val c) cs = None"
      using "2.IH"(1) [OF True] "2.prems" by simp
    with True show ?thesis by simp
  next
    case nd: False
    show ?thesis
    proof (cases "c = CHR ''_''")
      case us: True
      show ?thesis
      proof (cases cs)
        case Nil
        with nd us show ?thesis by simp
      next
        case (Cons d ds)
        show ?thesis
        proof (cases "is_digit d")
          case True
          with "2.prems" us Cons have "x \<in> set ds" by auto
          then have "parse_digits (acc * 10 + digit_val d) ds = None"
            using "2.IH"(2) [OF nd us Cons True] "2.prems" by simp
          with nd us Cons True show ?thesis by simp
        next
          case False
          with nd us Cons show ?thesis by simp
        qed
      qed
    next
      case False
      with nd show ?thesis by simp
    qed
  qed
qed

lemma parse_decimal_reject:
  assumes "x \<in> set s" "\<not> is_digit x" "x \<noteq> CHR ''_''"
  shows "parse_decimal s = None"
proof (cases s)
  case Nil
  then show ?thesis by (simp add: parse_decimal_def)
next
  case (Cons c cs)
  show ?thesis
  proof (cases "is_digit c")
    case True
    with assms Cons have "x \<in> set cs" by auto
    then have "parse_digits (digit_val c) cs = None"
      using assms by (intro parse_digits_reject)
    with Cons True show ?thesis by (simp add: parse_decimal_def)
  next
    case False
    with Cons show ?thesis by (simp add: parse_decimal_def)
  qed
qed

lemma dropWhile_keeps: "c \<in> set s \<Longrightarrow> \<not> P c \<Longrightarrow> c \<in> set (dropWhile P s)"
  by (induction s) auto

lemma strip_keeps: "c \<in> set s \<Longrightarrow> \<not> is_space c \<Longrightarrow> c \<in> set (strip s)"
  using dropWhile_keeps [of c "rev (dropWhile is_space s)" is_space]
    dropWhile_keeps [of c s is_space]
  by (simp add: strip_def)

lemma split_sign_keeps:
  "c \<in> set s \<Longrightarrow> c \<noteq> CHR ''-'' \<Longrightarrow> c \<noteq> CHR ''+'' \<Longrightarrow> c \<in> set (snd (split_sign s))"
  by (cases s) (auto simp: split_sign_def)

lemma long_from_string_point:
  assumes "CHR ''.'' \<in> set s"
  shows "long_from_string s = Inl ValueError"
proof -
  have "CHR ''.'' \<in> set (strip s)"
    using assms by (intro strip_keeps) (simp_all add: is_space_def)
  then have "CHR ''.'' \<in> set (snd (split_sign (strip s)))"
    by (intro split_sign_keeps) simp_all
  then have "parse_decimal (snd (split_sign (strip s))) = None"
    by (intro parse_decimal_reject [of "CHR ''.''"]) (simp_all add: is_digit_def)
  then show ?thesis
    by (cases "split_sign (strip s)") (simp add: long_from_string_def)
qed

lemma int_of_encoded_point:
  assumes "CHR ''.'' \<in> set s"
  shows "int_of_encoded (PyStr s) = Inl ValueError \<or> int_of_encoded (PyStr s) = Inl UnicodeEncodeError"
  using long_from_string_point [OF assms]
  by (simp add: int_of_encoded_def encode_ascii_def)

lemma int_of_encoded_errors:
  "int_of_encoded v = Inl e \<Longrightarrow> e = ValueError \<or> e = UnicodeEncodeError \<or> e = AttributeError"
  by (auto simp: int_of_encoded_def encode_ascii_def long_from_string_def
      split: if_splits option.splits prod.splits pyvalue.splits)

text \<open>
  C7, as amended. The coercion of the row-count checks reads the decimal text of every
  integer back as that integer. It rejects an integer object with AttributeError (the
  object has no \<^verbatim>\<open>encode\<close>) and every text with a decimal point with ValueError
  or UnicodeEncodeError. Whenever it rejects the argument, its own error (ValueError,
  UnicodeEncodeError or AttributeError, never an AssertionError) is the outcome of each of
  the three checks.
\<close>

theorem count_argument_coercion:
  "int_of_encoded (PyStr (str_int n)) = Inr n \<and>
   int_of_encoded (PyInt n) = Inl AttributeError \<and>
   (CHR ''.'' \<in> set s \<longrightarrow>
      int_of_encoded (PyStr s) = Inl ValueError \<or> int_of_encoded (PyStr s) = Inl UnicodeEncodeError) \<and>
   (row_count ex q sansTran w = (Inr rc, w') \<longrightarrow> int_of_encoded numRows = Inl e \<longrightarrow>
      fst (row_count_is_equal_to_x ex q numRows sansTran (w, tr)) = Inl e \<and>
      fst (row_count_is_greater_than_x ex q numRows sansTran (w, tr)) = Inl e \<and>
      fst (row_count_is_less_than_x ex q numRows sansTran (w, tr)) = Inl e \<and>
      (e = ValueError \<or> e = UnicodeEncodeError \<or> e = AttributeError))"
proof (intro conjI impI)
  show "int_of_encoded (PyStr (str_int n)) = Inr n" by (rule int_of_encoded_str_int)
  show "int_of_encoded (PyInt n) = Inl AttributeError"
    by (simp add: int_of_encoded_def encode_ascii_def)
next
  assume "CHR ''.'' \<in> set s"
  then show "int_of_encoded (PyStr s) = Inl ValueError \<or> int_of_encoded (PyStr s) = Inl UnicodeEncodeError"
    by (rule int_of_encoded_point)
next
  assume rc: "row_count ex q sansTran w = (Inr rc, w')" and e: "int_of_encoded numRows = Inl e"
  show "fst (row_count_is_equal_to_x ex q numRows sansTran (w, tr)) = Inl e"
    using row_count_is_equal_to_x_run [OF rc, of numRows tr] e by auto
  show "fst (row_count_is_greater_than_x ex q numRows sansTran (w, tr)) = Inl e"
    using row_count_is_greater_than_x_run [OF rc, of numRows tr] e by auto
  show "fst (row_count_is_less_than_x ex q numRows sansTran (w, tr)) = Inl e"
    using row_count_is_less_than_x_run [OF rc, of numRows tr] e by auto
  show "e = ValueError \<or> e = UnicodeEncodeError \<or> e = AttributeError"
    using e by (rule int_of_encoded_errors)
qed

text \<open>
  The text \<open>1.0\<close> has a decimal point; the argument \<open>one\<close> is no number and all three
  checks end in its ValueError.
\<close>

theorem count_argument_coercion_witness:
  "int_of_encoded (PyStr (str_int 1)) = Inr 1 \<and>
   int_of_encoded (PyInt 1) = Inl AttributeError \<and>
   (int_of_encoded (PyStr ''1.0'') = Inl ValueError
      \<or> int_of_encoded (PyStr ''1.0'') = Inl UnicodeEncodeError) \<and>
   fst (row_count_is_equal_to_x person_db ''SELECT id FROM person'' (PyStr ''one'') False ([], []))
     = Inl ValueError \<and>
   fst (row_count_is_greater_than_x person_db ''SELECT id FROM person'' (PyStr ''one'') False ([], []))
     = Inl ValueError \<and>
   fst (row_count_is_less_than_x person_db ''SELECT id FROM person'' (PyStr ''one'') False ([], []))
     = Inl ValueError"
proof -
  have one: "int_of_encoded (PyStr ''one'') = Inl ValueError" by code_simp
  have point: "CHR ''.'' \<in> set ''1.0''" by simp
  show ?thesis
    using count_argument_coercion [of 1 "''1.0''" person_db "''SELECT id FROM person''" False "[]" 1
        "[]" "PyStr ''one''" ValueError "[]"] person_row_count one point
    by simp
qed

text \<open>
  C7 as stated has every numeric count argument coerced to an integer: on the table with
  one row, the numeric text \<open>1.0\<close> ends \<open>row_count_is_equal_to_x\<close> in a ValueError and
  the integer object 1 ends it in an AttributeError.
\<close>

theorem numeric_count_argument_counterexample:
  "int_of_encoded (PyStr ''1.0'') = Inl ValueError \<and>
   fst (row_count_is_equal_to_x person_db ''SELECT id FROM person'' (PyStr ''1.0'') False ([], []))
     = Inl ValueError \<and>
   int_of_encoded (PyInt 1) = Inl AttributeError \<and>
   fst (row_count_is_equal_to_x person_db ''SELECT id FROM person'' (PyInt 1) False ([], []))
     = Inl AttributeError"
proof -
  have dotted: "int_of_encoded (PyStr ''1.0'') = Inl ValueError" by code_simp
  have number: "int_of_encoded (PyInt 1) = Inl AttributeError"
    by (simp add: int_of_encoded_def encode_ascii_def)
  have "fst (row_count_is_equal_to_x person_db ''SELECT id FROM person'' (PyStr ''1.0'') False ([], []))
     = Inl ValueError"
    using row_count_is_equal_to_x_run [OF person_row_count, of "PyStr ''1.0''" "[]"] dotted by auto
  moreover have "fst (row_count_is_equal_to_x person_db ''SELECT id FROM person'' (PyInt 1) False ([], []))
     = Inl AttributeError"
    using row_count_is_equal_to_x_run [OF person_row_count, of "PyInt 1" "[]"] number by auto
  ultimately show ?thesis using dotted number by simp
qed

section \<open>Threshold check\<close>

text \<open>
  C6. When the table has no row, \<open>count_empty_column_value_percentage\<close> has read both
  counts and divides: the ZeroDivisionError is its outcome, with no guard before the
  division and no conversion to an AssertionError.
\<close>

theorem division_by_zero_propagates:
  assumes "row_count ex (''SELECT * FROM '' @ schema_name @ ''.'' @ table_name) False w = (Inr 0, w1)"
    and "row_count ex (''SELECT * FROM '' @ schema_name @ ''.'' @ table_name
            @ '' WHERE '' @ column_name @ '' IS NULL'') False w1 = (Inr null_rows, w2)"
  shows "count_empty_column_value_percentage str_float ex schema_name table_name column_name
           percentage (w, tr)
         = (Inl ZeroDivisionError,
            (w2, tr @ [RowCount (''SELECT * FROM '' @ schema_name @ ''.'' @ table_name) False,
                       RowCount (''SELECT * FROM '' @ schema_name @ ''.'' @ table_name
                          @ '' WHERE '' @ column_name @ '' IS NULL'') False]))"
  using assms
  by (simp add: count_empty_column_value_percentage_def run py_truediv_def Let_def
      del: append.simps)

text \<open>On the empty database both counts are 0.\<close>

theorem division_by_zero_propagates_witness:
  "count_empty_column_value_percentage (\<lambda>x. ''?'') empty_db
     ''main'' ''person'' ''last_name'' ''20.0'' ([], [])
   = (Inl ZeroDivisionError,
      ([], [RowCount ''SELECT * FROM main.person'' False,
            RowCount ''SELECT * FROM main.person WHERE last_name IS NULL'' False]))"
  using division_by_zero_propagates [of empty_db
      "''main''" "''person''" "[]" "[]" "''last_name''" 0 "[]" "\<lambda>x. ''?''" "''20.0''" "[]"]
  by (simp add: empty_db_def stub_executor_def no_rows_def)

lemma bit_length_nonneg: "0 \<le> bit_length n"
  by (induction n rule: bit_length.induct) (subst bit_length.simps, simp)

lemma bit_length_1: "bit_length 1 = 1"
  by (simp add: bit_length.simps)

lemma floor_log2_unit:
  assumes "0 < x" "x \<le> 1"
  shows "floor_log2 x \<le> 0"
proof (cases "x = 1")
  case True
  then show ?thesis by (simp add: floor_log2_def bit_length_1)
next
  case False
  with assms have "x < 1" by simp
  then show ?thesis
    using bit_length_nonneg [of "\<lceil>1 / x\<rceil> - 1"] by (simp add: floor_log2_def)
qed

lemma round_to_double_unit:
  assumes "\<bar>x\<bar> \<le> 1"
  shows "\<exists>r. round_to_double x = Finite r"
proof (cases "x = 0")
  case True
  then show ?thesis by (simp add: round_to_double_def)
next
  case False
  then have "floor_log2 \<bar>x\<bar> \<le> 0"
    using assms by (intro floor_log2_unit) auto
  then have "\<not> 1024 \<le> floor_log2 \<bar>x\<bar>" "floor_log2 \<bar>x\<bar> \<noteq> 1023"
    by auto
  with False show ?thesis
    by (simp add: round_to_double_def Let_def)
qed

lemma py_truediv_fraction:
  assumes "0 < total_rows" "0 \<le> null_rows" "null_rows \<le> total_rows"
  shows "py_truediv null_rows total_rows = Inr (round_to_double (of_int null_rows / of_int total_rows))"
proof -
  have "\<bar>(of_int null_rows / of_int total_rows :: rat)\<bar> \<le> 1"
    using assms by simp
  from round_to_double_unit [OF this] obtain r where
    "round_to_double (of_int null_rows / of_int total_rows) = Finite r" by blast
  then show ?thesis
    using assms by (simp add: py_truediv_def)
qed

lemma thirty: "empty_percentage 3 10 = Finite 30"
  by code_simp

lemma thresholds: "float_of_str ''20.0'' = Inr (Finite 20)" "float_of_str ''40.0'' = Inr (Finite 40)"
  by code_simp+


text \<open>
  C5. For a table with \<open>total_rows > 0\<close> rows of which \<open>null_rows\<close> have the column
  empty, \<open>count_empty_column_value_percentage\<close> raises an AssertionError iff
  \<open>(null_rows / total_rows) * 100\<close> is strictly greater than the float threshold, and
  passes otherwise. With 3 of 10 rows the value is 30.0: above the threshold 20.0, not
  above 40.0.
\<close>

theorem empty_column_percentage:
  assumes "row_count ex (''SELECT * FROM '' @ schema_name @ ''.'' @ table_name) False w
             = (Inr total_rows, w1)"
    and "row_count ex (''SELECT * FROM '' @ schema_name @ ''.'' @ table_name
            @ '' WHERE '' @ column_name @ '' IS NULL'') False w1 = (Inr null_rows, w2)"
    and "0 < total_rows" and "0 \<le> null_rows" and "null_rows \<le> total_rows"
    and "float_of_str percentage = Inr threshold"
  shows "(\<exists>msg. fst (count_empty_column_value_percentage str_float ex schema_name table_name
                    column_name percentage (w, tr)) = Inl (AssertionError msg))
           = float_gt (empty_percentage null_rows total_rows) threshold \<and>
         (fst (count_empty_column_value_percentage str_float ex schema_name table_name
                 column_name percentage (w, tr)) = Inr ())
           = (\<not> float_gt (empty_percentage null_rows total_rows) threshold) \<and>
         empty_percentage 3 10 = Finite 30 \<and>
         float_of_str ''20.0'' = Inr (Finite 20) \<and> float_gt (Finite 30) (Finite 20) \<and>
         float_of_str ''40.0'' = Inr (Finite 40) \<and> \<not> float_gt (Finite 30) (Finite 40)"
proof -
  have run_check: "fst (count_empty_column_value_percentage str_float ex schema_name table_name
                    column_name percentage (w, tr))
      = (if float_gt (empty_percentage null_rows total_rows) threshold
         then Inl (AssertionError (''Percentage of EMPTY columns is '' @ quote
                  @ str_float (empty_percentage null_rows total_rows) @ quote
                  @ '' is higher than allow percentage '' @ quote @ percentage @ quote))
         else Inr ())"
    using assms(1,2,6) py_truediv_fraction [OF assms(3,4,5)]
    by (simp add: count_empty_column_value_percentage_def run Let_def empty_percentage_def
        del: append.simps)
  have cmp: "float_gt (Finite 30) (Finite 20)" "\<not> float_gt (Finite 30) (Finite 40)"
    by (simp_all add: float_gt_def)
  show ?thesis
    unfolding run_check using thirty thresholds cmp by auto
qed

text \<open>Ten rows, three of them empty: the check fails at 20.0 and passes at 40.0.\<close>

theorem empty_column_percentage_witness:
  "(\<exists>msg. fst (count_empty_column_value_percentage (\<lambda>x. ''?'')
              (stub_executor ''sqlite3'' ten_rows_three_null id (\<lambda>name. []))
              ''main'' ''person'' ''last_name'' ''20.0'' ([], [])) = Inl (AssertionError msg)) \<and>
   fst (count_empty_column_value_percentage (\<lambda>x. ''?'')
              (stub_executor ''sqlite3'' ten_rows_three_null id (\<lambda>name. []))
              ''main'' ''person'' ''last_name'' ''40.0'' ([], [])) = Inr ()"
proof -
  let ?ex = "stub_executor ''sqlite3'' ten_rows_three_null id (\<lambda>name. [])"
  have t: "row_count ?ex (''SELECT * FROM '' @ ''main'' @ ''.'' @ ''person'') False [] = (Inr 10, [])"
    by (simp add: stub_executor_def ten_rows_three_null_def)
  have n: "row_count ?ex (''SELECT * FROM '' @ ''main'' @ ''.'' @ ''person''
            @ '' WHERE '' @ ''last_name'' @ '' IS NULL'') False [] = (Inr 3, [])"
    by (simp add: stub_executor_def ten_rows_three_null_def)
  have p20: "float_of_str ''20.0'' = Inr (Finite 20)" and p40: "float_of_str ''40.0'' = Inr (Finite 40)"
    by (rule thresholds)+
  have pct: "empty_percentage 3 10 = Finite 30" by (rule thirty)
  show ?thesis
    using empty_column_percentage [OF t n _ _ _ p20, of "\<lambda>x. ''?''" "[]"]
      empty_column_percentage [OF t n _ _ _ p40, of "\<lambda>x. ''?''" "[]"]
    by (simp add: pct float_gt_def)
qed

section \<open>Row counts of a script file\<close>

lemma row_count_is_greater_than_x_trace:
  "\<exists>r w' line. row_count_is_greater_than_x ex q numRows sansTran (w, tr)
     = (r, (w', tr @ [Log line, RowCount q sansTran]))"
  by (cases "row_count ex q sansTran w"; cases "fst (row_count ex q sansTran w)";
      cases "int_of_encoded numRows")
    (simp_all add: row_count_is_greater_than_x_def run del: append.simps)

lemma row_count_is_equal_to_x_trace:
  "\<exists>r w' line. row_count_is_equal_to_x ex q numRows sansTran (w, tr)
     = (r, (w', tr @ [Log line, RowCount q sansTran]))"
  by (cases "row_count ex q sansTran w"; cases "fst (row_count ex q sansTran w)";
      cases "int_of_encoded numRows")
    (simp_all add: row_count_is_equal_to_x_def run del: append.simps)

lemma script_row_count_is_greater_than_x_calls:
  "filter is_row_count (trace_of (script_row_count_is_greater_than_x ex f numRows sansTran) w) = [] \<or>
   (\<exists>stmt. filter is_row_count (trace_of (script_row_count_is_greater_than_x ex f numRows sansTran) w)
      = [RowCount stmt False])"
proof (cases "open_sql ex f w")
  case (Pair r w1)
  show ?thesis
  proof (cases r)
    case (Inl e)
    with Pair show ?thesis
      by (simp add: script_row_count_is_greater_than_x_def trace_of_def calls run)
  next
    case (Inr stmt)
    obtain r' w' line where
      "row_count_is_greater_than_x ex stmt numRows False (w1, [] @ [OpenSql f])
         = (r', (w', ([] @ [OpenSql f]) @ [Log line, RowCount stmt False]))"
      using row_count_is_greater_than_x_trace [of ex stmt numRows False w1 "[] @ [OpenSql f]"]
      by blast
    with Pair Inr show ?thesis
      by (simp add: script_row_count_is_greater_than_x_def trace_of_def calls run)
  qed
qed

lemma script_row_count_is_equal_to_x_calls:
  "filter is_row_count (trace_of (script_row_count_is_equal_to_x ex f numRows sansTran) w) = [] \<or>
   (\<exists>stmt. filter is_row_count (trace_of (script_row_count_is_equal_to_x ex f numRows sansTran) w)
      = [RowCount stmt False])"
proof (cases "open_sql ex f w")
  case (Pair r w1)
  show ?thesis
  proof (cases r)
    case (Inl e)
    with Pair show ?thesis
      by (simp add: script_row_count_is_equal_to_x_def trace_of_def calls run)
  next
    case (Inr stmt)
    obtain r' w' line where
      "row_count_is_equal_to_x ex stmt numRows False (w1, [] @ [OpenSql f])
         = (r', (w', ([] @ [OpenSql f]) @ [Log line, RowCount stmt False]))"
      using row_count_is_equal_to_x_trace [of ex stmt numRows False w1 "[] @ [OpenSql f]"]
      by blast
    with Pair Inr show ?thesis
      by (simp add: script_row_count_is_equal_to_x_def trace_of_def calls run)
  qed
qed

text \<open>
  C9. \<open>script_row_count_is_greater_than_x\<close> and \<open>script_row_count_is_equal_to_x\<close>
  do the same with \<^verbatim>\<open>sansTran\<close> True and False, in outcome, connection state and
  trace: the flag is not forwarded, and the one row count a run may make is made with
  the flag False.
\<close>

theorem script_checks_ignore_sansTran:
  "script_row_count_is_greater_than_x ex f numRows True s
     = script_row_count_is_greater_than_x ex f numRows False s \<and>
   script_row_count_is_equal_to_x ex f numRows True s
     = script_row_count_is_equal_to_x ex f numRows False s \<and>
   (filter is_row_count (trace_of (script_row_count_is_greater_than_x ex f numRows sansTran) w) = [] \<or>
    (\<exists>stmt. filter is_row_count (trace_of (script_row_count_is_greater_than_x ex f numRows sansTran) w)
       = [RowCount stmt False])) \<and>
   (filter is_row_count (trace_of (script_row_count_is_equal_to_x ex f numRows sansTran) w) = [] \<or>
    (\<exists>stmt. filter is_row_count (trace_of (script_row_count_is_equal_to_x ex f numRows sansTran) w)
       = [RowCount stmt False]))"
  using script_row_count_is_greater_than_x_calls [of ex f numRows sansTran w]
    script_row_count_is_equal_to_x_calls [of ex f numRows sansTran w]
  by (simp add: script_row_count_is_greater_than_x_def script_row_count_is_equal_to_x_def)

section \<open>Structural comparison after a deployment\<close>

lemma compare_table_structure_snowflake_calls:
  "collaborator_calls (trace_of (compare_table_structure_snowflake ex script ts tt rs rt) w)
     = [ExecuteSqlScript script] \<or>
   collaborator_calls (trace_of (compare_table_structure_snowflake ex script ts tt rs rt) w)
     = [ExecuteSqlScript script,
        RowCount (compare_table_structure_snowflake_query ts tt rs rt) False]"
  by (cases "execute_sql_script ex script w"; cases "fst (execute_sql_script ex script w)";
      cases "row_count ex (compare_table_structure_snowflake_query ts tt rs rt) False
               (snd (execute_sql_script ex script w))";
      cases "fst (row_count ex (compare_table_structure_snowflake_query ts tt rs rt) False
               (snd (execute_sql_script ex script w)))")
    (simp_all add: compare_table_structure_snowflake_def trace_of_def collaborator_calls_def
      calls run del: append.simps)

lemma check_query_result_calls:
  "collaborator_calls (trace_of (check_query_result ex script ts tt rs rt sansTrans) w)
     = [ExecuteSqlScript script] \<or>
   collaborator_calls (trace_of (check_query_result ex script ts tt rs rt sansTrans) w)
     = [ExecuteSqlScript script, CompareTables ts tt rs rt]"
  by (cases "execute_sql_script ex script w"; cases "fst (execute_sql_script ex script w)";
      cases "compare_tables ex ts tt rs rt (snd (execute_sql_script ex script w))";
      cases "fst (compare_tables ex ts tt rs rt (snd (execute_sql_script ex script w)))")
    (simp_all add: check_query_result_def trace_of_def collaborator_calls_def
      calls run del: append.simps)

text \<open>
  C8. \<open>compare_table_structure_snowflake\<close> and \<open>check_query_result\<close> run the
  deployment script once and first: the calls of a run are the script alone (when it
  raises) or the script followed by the one comparison. When the comparison finds faulty
  rows the check raises, and the connection is left in the state the script and the
  comparison produced: the check undoes nothing.
\<close>

theorem deploy_then_compare:
  "(collaborator_calls (trace_of (compare_table_structure_snowflake ex script ts tt rs rt) w)
      = [ExecuteSqlScript script] \<or>
    collaborator_calls (trace_of (compare_table_structure_snowflake ex script ts tt rs rt) w)
      = [ExecuteSqlScript script,
         RowCount (compare_table_structure_snowflake_query ts tt rs rt) False]) \<and>
   (collaborator_calls (trace_of (check_query_result ex script ts tt rs rt sansTrans) w)
      = [ExecuteSqlScript script] \<or>
    collaborator_calls (trace_of (check_query_result ex script ts tt rs rt sansTrans) w)
      = [ExecuteSqlScript script, CompareTables ts tt rs rt]) \<and>
   (execute_sql_script ex script w = (Inr (), w1) \<longrightarrow>
    row_count ex (compare_table_structure_snowflake_query ts tt rs rt) False w1 = (Inr n, w2) \<longrightarrow>
    0 < n \<longrightarrow>
      (\<exists>msg. outcome (compare_table_structure_snowflake ex script ts tt rs rt) w
         = Inl (AssertionError msg)) \<and>
      final_state (compare_table_structure_snowflake ex script ts tt rs rt) w = w2) \<and>
   (execute_sql_script ex script w = (Inr (), w1) \<longrightarrow>
    compare_tables ex ts tt rs rt w1 = (Inr n, w2) \<longrightarrow>
    0 < n \<longrightarrow>
      (\<exists>msg. outcome (check_query_result ex script ts tt rs rt sansTrans) w
         = Inl (AssertionError msg)) \<and>
      final_state (check_query_result ex script ts tt rs rt sansTrans) w = w2)"
  using compare_table_structure_snowflake_calls [of ex script ts tt rs rt w]
    check_query_result_calls [of ex script ts tt rs rt sansTrans w]
  by (simp add: compare_table_structure_snowflake_def check_query_result_def outcome_def
      final_state_def calls run del: append.simps)

text \<open>
  On the stand-in executor the state lists the deployed scripts: after the failed
  comparison the script is still deployed.
\<close>

theorem deploy_then_compare_witness:
  "(\<exists>msg. outcome (compare_table_structure_snowflake (stub_executor ''snowflake'' two_faulty id (\<lambda>name. []))
             ''deploy.sql'' ''test'' ''person'' ''ref'' ''person'') []
      = Inl (AssertionError msg)) \<and>
   final_state (compare_table_structure_snowflake (stub_executor ''snowflake'' two_faulty id (\<lambda>name. []))
             ''deploy.sql'' ''test'' ''person'' ''ref'' ''person'') [] = [''deploy.sql''] \<and>
   (\<exists>msg. outcome (check_query_result (stub_executor ''snowflake'' two_faulty id (\<lambda>name. []))
             ''deploy.sql'' ''test'' ''person'' ''ref'' ''person'' False) []
      = Inl (AssertionError msg)) \<and>
   final_state (check_query_result (stub_executor ''snowflake'' two_faulty id (\<lambda>name. []))
             ''deploy.sql'' ''test'' ''person'' ''ref'' ''person'' False) [] = [''deploy.sql'']"
  using deploy_then_compare [of "stub_executor ''snowflake'' two_faulty id (\<lambda>name. [])"
      "''deploy.sql''" "''test''" "''person''" "''ref''" "''person''" "[]" False "[''deploy.sql'']"
      2 "[''deploy.sql'']"]
  by (simp add: stub_executor_def two_faulty_def)

section \<open>Schema existence check\<close>

lemma table_must_exist_calls:
  "collaborator_calls (trace_of (table_must_exist ex tableName sansTran) w)
     = [RowCount (table_must_exist_statement (db_api_module_name ex) tableName) sansTran]"
  by (cases "row_count ex (table_must_exist_statement (db_api_module_name ex) tableName) sansTran w";
      cases "fst (row_count ex (table_must_exist_statement (db_api_module_name ex) tableName) sansTran w)")
    (simp_all add: table_must_exist_def trace_of_def collaborator_calls_def run del: append.simps)

text \<open>
  C4, as amended. \<open>table_must_exist\<close> issues one row count, of the statement chosen by
  the driver module name: three dialect statements for four recognised names (Oracle for
  \<open>cx_Oracle\<close>; \<open>sqlite_master\<close> with \<open>COLLATE NOCASE\<close> for \<open>sqlite3\<close>; one
  statement shared by \<open>ibm_db\<close> and \<open>ibm_db_dbi\<close>), and for every other name the
  \<open>information_schema.tables\<close> statement with the exact match on \<open>table_name\<close>.
\<close>

theorem table_must_exist_dispatch:
  "table_must_exist_statement ''sqlite3'' tableName
     = ''SELECT name FROM sqlite_master WHERE type='table' AND name='' @ quote @ tableName @ quote
         @ '' COLLATE NOCASE'' \<and>
   table_must_exist_statement ''cx_Oracle'' tableName
     = ''SELECT * FROM all_objects WHERE object_type IN ('TABLE','VIEW') AND owner = SYS_CONTEXT('USERENV', 'SESSION_USER') AND object_name = UPPER(''
         @ quote @ tableName @ quote @ '')'' \<and>
   table_must_exist_statement ''ibm_db'' tableName
     = ''SELECT name FROM SYSIBM.SYSTABLES WHERE type='T' AND name=UPPER('' @ quote @ tableName
         @ quote @ '')'' \<and>
   table_must_exist_statement ''ibm_db_dbi'' tableName
     = table_must_exist_statement ''ibm_db'' tableName \<and>
   (module_name \<notin> {''cx_Oracle'', ''sqlite3'', ''ibm_db'', ''ibm_db_dbi''} \<longrightarrow>
      table_must_exist_statement module_name tableName
        = ''SELECT * FROM information_schema.tables WHERE table_name='' @ quote @ tableName @ quote) \<and>
   collaborator_calls (trace_of (table_must_exist ex tableName sansTran) w)
     = [RowCount (table_must_exist_statement (db_api_module_name ex) tableName) sansTran]"
  using table_must_exist_calls [of ex tableName sansTran w]
  by (simp add: table_must_exist_statement_def del: append.simps)

text \<open>The driver \<open>psycopg2\<close> is not recognised and gets the fallback.\<close>

theorem table_must_exist_dispatch_witness:
  "table_must_exist_statement ''psycopg2'' ''person''
     = ''SELECT * FROM information_schema.tables WHERE table_name='person'' @ quote \<and>
   table_must_exist_statement ''sqlite3'' ''person''
     = ''SELECT name FROM sqlite_master WHERE type='table' AND name='person' COLLATE NOCASE''"
  using table_must_exist_dispatch [of "''person''" "''psycopg2''" empty_db False "[]"]
  by (simp add: quote_def)

text \<open>
  C4 as stated speaks of four dialect statements: the four recognised names give three
  distinct statements, \<open>ibm_db\<close> and \<open>ibm_db_dbi\<close> the same one.
\<close>

theorem four_dialect_queries_counterexample:
  "table_must_exist_statement ''ibm_db'' ''person''
     = table_must_exist_statement ''ibm_db_dbi'' ''person'' \<and>
   length (remdups [table_must_exist_statement ''cx_Oracle'' ''person'',
                    table_must_exist_statement ''sqlite3'' ''person'',
                    table_must_exist_statement ''ibm_db'' ''person'',
                    table_must_exist_statement ''ibm_db_dbi'' ''person'']) = 3"
  by (simp add: table_must_exist_statement_def)

section \<open>Value variance check\<close>

text \<open>
  C10, as amended. When the helper returns rows whose first row flattens to the integer
  \<open>uniqueRows\<close> and \<open>int(field)\<close> is \<open>n\<close>: for \<open>n\<close> other than 0, 1 and 2
  \<open>value_variance_check\<close> raises the AssertionError on the 4th argument, whatever
  \<open>uniqueRows\<close> is; for \<open>n\<close> 0 or 1 it passes iff \<open>uniqueRows = n\<close>; for \<open>n = 2\<close>
  it passes iff \<open>uniqueRows \<ge> 2\<close>; every failure is an AssertionError.
\<close>

theorem value_variance_check_cases:
  assumes "count_rows_helper ex ''count_unique_rows_table'' [schema_name, table_name, unique_key] w
             = (Inr rows, w1)"
    and "round_float_join rows = Inr uniqueRows"
    and "int_of_str field = Inr n"
  shows "(n \<noteq> 0 \<and> n \<noteq> 1 \<and> n \<noteq> 2 \<longrightarrow>
            outcome (value_variance_check ex schema_name table_name unique_key field) w
              = Inl (AssertionError ''Check 4th argument in TC, expected value 0, 1 or 2'')) \<and>
         (n = 0 \<or> n = 1 \<longrightarrow>
            (\<exists>msg. outcome (value_variance_check ex schema_name table_name unique_key field) w
               = (if uniqueRows = n then Inr () else Inl (AssertionError msg)))) \<and>
         (n = 2 \<longrightarrow>
            (\<exists>msg. outcome (value_variance_check ex schema_name table_name unique_key field) w
               = (if 2 \<le> uniqueRows then Inr () else Inl (AssertionError msg))))"
  using assms
  by (auto simp add: value_variance_check_def outcome_def count_unique_rows_table_def calls run
      simp del: append.simps)

text \<open>A count of two: field 7 is rejected, field 1 fails, field 2 passes.\<close>

theorem value_variance_check_cases_witness:
  "outcome (value_variance_check two_db ''main'' ''person'' ''id'' ''7'') []
     = Inl (AssertionError ''Check 4th argument in TC, expected value 0, 1 or 2'') \<and>
   (\<exists>msg. outcome (value_variance_check two_db ''main'' ''person'' ''id'' ''1'') []
     = Inl (AssertionError msg)) \<and>
   outcome (value_variance_check two_db ''main'' ''person'' ''id'' ''2'') [] = Inr ()"
proof -
  have h: "count_rows_helper two_db ''count_unique_rows_table'' [''main'', ''person'', ''id''] []
             = (Inr [[2]], [])"
    by (simp add: two_db_def stub_executor_def count_two_def)
  have u: "round_float_join [[2]] = Inr 2" by code_simp
  have f7: "int_of_str ''7'' = Inr 7" and f1: "int_of_str ''1'' = Inr 1"
    and f2: "int_of_str ''2'' = Inr 2" by code_simp+
  show ?thesis
    using value_variance_check_cases [OF h u f7] value_variance_check_cases [OF h u f1]
      value_variance_check_cases [OF h u f2]
    by simp
qed

text \<open>
  C10 as stated has the AssertionError raised regardless of the database result: when
  the helper returns no row, the field 7 is never looked at and the check ends in the
  IndexError of \<^verbatim>\<open>result_uniqueRows[0]\<close>.
\<close>

theorem value_variance_check_counterexample:
  "int_of_str ''7'' = Inr 7 \<and>
   outcome (value_variance_check empty_db ''main'' ''person'' ''id'' ''7'') [] = Inl IndexError"
proof -
  have f7: "int_of_str ''7'' = Inr 7" by code_simp
  have "outcome (value_variance_check empty_db ''main'' ''person'' ''id'' ''7'') [] = Inl IndexError"
    by (simp add: value_variance_check_def outcome_def count_unique_rows_table_def calls run
        empty_db_def stub_executor_def no_rows_def round_float_join_def first_row_def
        del: append.simps)
  with f7 show ?thesis by simp
qed

text \<open>
  An error of the helper or of the flattening ends \<open>value_variance_check\<close> before the
  field is read, whatever the field is.
\<close>

lemma value_variance_check_first_errors:
  "(count_rows_helper ex ''count_unique_rows_table'' [s, t, k] w = (Inl e, w1) \<longrightarrow>
      outcome (value_variance_check ex s t k field) w = Inl e) \<and>
   (count_rows_helper ex ''count_unique_rows_table'' [s, t, k] w = (Inr rows, w1) \<longrightarrow>
    round_float_join rows = Inl e \<longrightarrow>
      outcome (value_variance_check ex s t k field) w = Inl e)"
  by (simp add: value_variance_check_def outcome_def count_unique_rows_table_def calls run
      del: append.simps)

section \<open>Derived-scalar comparisons\<close>

lemma round_float_join_single: "round_float_join [r] = scalar_flatten r"
  by (simp add: round_float_join_def first_row_def scalar_flatten_def)

lemmas helpers = count_unique_rows_table_def count_unique_rows_table_argument_def
  count_object_rows_table_def count_found_rows_table_def count_found_rows_table_argument_def
  count_found_rows_table_withClause_def

lemma row_unique_check_scalars:
  assumes "count_rows_helper ex ''count_unique_rows_table'' [s, t, k] w = (Inr [ru], w1)"
    and "count_rows_helper ex ''count_object_rows_table'' [s, t] w1 = (Inr [ro], w2)"
  shows "outcome (row_unique_check ex s t k) w
     = assert_equal_scalars (scalar_flatten ru) (scalar_flatten ro)
         (\<lambda>uniqueRows objectRows. object_unique_message objectRows k uniqueRows)"
  using assms
  by (simp add: row_unique_check_def outcome_def helpers calls run seq_lift_any
      round_float_join_single assert_equal_scalars_def split: sum.splits del: append.simps)

lemma row_unique_check2_scalars:
  assumes "open_sql ex count_key w = (Inr s1, wa)"
    and "open_sql ex count_total wa = (Inr s2, wb)"
    and "cursor ex wb = (Inr (), wc)"
    and "query ex s1 False wc = (Inr [rk], wd)"
    and "query ex s2 False wd = (Inr [rt], we)"
  shows "\<exists>msg. outcome (row_unique_check2 ex count_key count_total) w
     = assert_equal_scalars (scalar_flatten rk) (scalar_flatten rt) msg"
  apply (rule exI [of _ "\<lambda>rowunique objectrows. ''Key is not unique, total rows: '' @ quote
                 @ str_int objectrows @ quote @ '', key rows: '' @ quote
                 @ str_int rowunique @ quote"])
  using assms
  apply (simp add: row_unique_check2_def outcome_def helpers calls run seq_lift_any
      round_float_join_single assert_equal_scalars_def split: sum.splits del: append.simps)
  done

lemma dimensional_integrity_check_found_scalars:
  assumes "count_rows_helper ex ''count_found_rows_table'' [s, t, k, ft, fk] w = (Inr [rf], w1)"
    and "count_rows_helper ex ''count_unique_rows_table'' [s, t, k] w1 = (Inr [ru], w2)"
  shows "outcome (dimensional_integrity_check_found ex s t k ft fk) w
     = assert_equal_scalars (scalar_flatten rf) (scalar_flatten ru)
         (\<lambda>foundRows uniqueRows. unique_found_message ''found'' k uniqueRows fk foundRows)"
  using assms
  by (simp add: dimensional_integrity_check_found_def outcome_def helpers calls run seq_lift_any
      round_float_join_single assert_equal_scalars_def split: sum.splits del: append.simps)

lemma dimensional_integrity_check_found_joinArgument_scalars:
  assumes "count_rows_helper ex ''count_found_rows_table_argument'' [s, t, k, ft, fk, arg] w
             = (Inr [rf], w1)"
    and "count_rows_helper ex ''count_unique_rows_table'' [s, t, k] w1 = (Inr [ru], w2)"
  shows "outcome (dimensional_integrity_check_found_joinArgument ex s t k ft fk arg) w
     = assert_equal_scalars (scalar_flatten rf) (scalar_flatten ru)
         (\<lambda>foundRows uniqueRows. unique_found_message ''found'' k uniqueRows fk foundRows)"
  using assms
  by (simp add: dimensional_integrity_check_found_joinArgument_def outcome_def helpers calls run
      seq_lift_any round_float_join_single assert_equal_scalars_def split: sum.splits
      del: append.simps)

lemma dimensional_integrity_check_found_argument_scalars:
  assumes "count_rows_helper ex ''count_found_rows_table'' [s, t, k, ft, fk] w = (Inr [rf], w1)"
    and "count_rows_helper ex ''count_unique_rows_table_argument'' [s, t, k, arg] w1
           = (Inr [ru], w2)"
  shows "outcome (dimensional_integrity_check_found_argument ex s t k arg ft fk) w
     = assert_equal_scalars (scalar_flatten rf) (scalar_flatten ru)
         (\<lambda>foundRows uniqueRows. unique_found_message ''found'' k uniqueRows fk foundRows)"
  using assms
  by (simp add: dimensional_integrity_check_found_argument_def outcome_def helpers calls run
      seq_lift_any round_float_join_single assert_equal_scalars_def split: sum.splits
      del: append.simps)

lemma dimensional_integrity_check_found_withClause_argument_scalars:
  assumes "count_rows_helper ex ''count_found_rows_table_withClause'' [s, t, k, ft, fk] w
             = (Inr [rf], w1)"
    and "count_rows_helper ex ''count_unique_rows_table_argument'' [s, t, k, arg] w1
           = (Inr [ru], w2)"
  shows "outcome (dimensional_integrity_check_found_withClause_argument ex s t k arg ft fk) w
     = assert_equal_scalars (scalar_flatten rf) (scalar_flatten ru)
         (\<lambda>foundRows uniqueRows. unique_found_message ''found'' k uniqueRows fk foundRows)"
  using assms
  by (simp add: dimensional_integrity_check_found_withClause_argument_def outcome_def helpers
      calls run seq_lift_any round_float_join_single assert_equal_scalars_def split: sum.splits
      del: append.simps)

lemma dimensional_integrity_check_potential_scalars:
  assumes "count_rows_helper ex ''count_unique_rows_table'' [s, t, fk] w = (Inr [rp], w1)"
    and "count_rows_helper ex ''count_unique_rows_table'' [s, t, k] w1 = (Inr [ru], w2)"
  shows "outcome (dimensional_integrity_check_potential ex s t k fk) w
     = assert_equal_scalars (scalar_flatten rp) (scalar_flatten ru)
         (\<lambda>potentialRows uniqueRows. unique_found_message ''potential'' k uniqueRows fk potentialRows)"
  using assms
  by (simp add: dimensional_integrity_check_potential_def outcome_def helpers calls run
      seq_lift_any round_float_join_single assert_equal_scalars_def split: sum.splits
      del: append.simps)

lemma value_variance_check_scalar:
  assumes "count_rows_helper ex ''count_unique_rows_table'' [s, t, k] w = (Inr [r], w1)"
    and "count_rows_helper ex' ''count_unique_rows_table'' [s, t, k] w' = (Inr [r'], w1')"
    and "scalar_flatten r = scalar_flatten r'"
  shows "outcome (value_variance_check ex s t k field) w
     = outcome (value_variance_check ex' s t k field) w'"
  using assms
  by (simp add: value_variance_check_def outcome_def helpers calls run seq_lift_any
      round_float_join_single split: sum.splits del: append.simps)

lemma value_variance_check_outcome:
  assumes "count_rows_helper ex ''count_unique_rows_table'' [s, t, k] w = (Inr [ru], w1)"
  shows "outcome (value_variance_check ex s t k field) w
     = (case scalar_flatten ru of
          Inl e \<Rightarrow> Inl e
        | Inr uniqueRows \<Rightarrow>
            (case int_of_str field of
               Inl e \<Rightarrow> Inl e
             | Inr n \<Rightarrow>
                 if n = 0 \<or> n = 1 then
                   (if uniqueRows = n then Inr ()
                    else Inl (AssertionError (''Expected: '' @ quote @ field @ quote
                           @ ''   Actual: '' @ quote @ str_int uniqueRows @ quote)))
                 else if n = 2 then
                   (if 2 \<le> uniqueRows then Inr ()
                    else Inl (AssertionError (''Expected: '' @ quote @ field @ quote
                           @ ''   Actual: '' @ quote @ str_int uniqueRows @ quote)))
                 else Inl (AssertionError ''Check 4th argument in TC, expected value 0, 1 or 2'')))"
  using assms
  by (simp add: value_variance_check_def outcome_def helpers calls run seq_lift_any
      round_float_join_single split: sum.splits del: append.simps)

lemma flatten_3_14: "join ''.'' (map str_int [3, 14]) = ''3.14''" "scalar_flatten [3, 14] = Inr 3"
  by code_simp+

lemma flatten_5: "join ''.'' (map str_int [5]) = ''5''" "scalar_flatten [5] = Inr 5"
  by code_simp+


text \<open>
  C1. For a single-row result every derived-scalar check (\<open>row_unique_check\<close>,
  \<open>row_unique_check2\<close>, the five \<open>dimensional_integrity_check\<close> variants,
  \<open>value_variance_check\<close>) reads the row through the scalar-flatten law: the column
  values joined with a dot, parsed as a float, rounded to the nearest integer. The two
  scalars of a comparison decide its outcome; \<open>value_variance_check\<close> raises the error of
  the flattening when there is one and otherwise decides by the scalar and \<open>int(field)\<close>
  alone, so it cannot tell two rows with the same scalar apart. The row \<open>(3, 14)\<close> joins to \<open>3.14\<close> and yields 3, the
  row \<open>(5,)\<close> yields 5.
\<close>

theorem scalar_flatten_law:
  "scalar_flatten r
     = (case float_of_str (join ''.'' (map str_int r)) of Inl e \<Rightarrow> Inl e | Inr x \<Rightarrow> py_round x) \<and>
   round_float_join [r] = scalar_flatten r \<and>
   join ''.'' (map str_int [3, 14]) = ''3.14'' \<and> scalar_flatten [3, 14] = Inr 3 \<and>
   join ''.'' (map str_int [5]) = ''5'' \<and> scalar_flatten [5] = Inr 5 \<and>
   (count_rows_helper ex ''count_unique_rows_table'' [s, t, k] w = (Inr [ru], w1) \<longrightarrow>
    count_rows_helper ex ''count_object_rows_table'' [s, t] w1 = (Inr [ro], w2) \<longrightarrow>
      outcome (row_unique_check ex s t k) w
        = assert_equal_scalars (scalar_flatten ru) (scalar_flatten ro)
            (\<lambda>uniqueRows objectRows. object_unique_message objectRows k uniqueRows)) \<and>
   (open_sql ex count_key w = (Inr s1, wa) \<longrightarrow>
    open_sql ex count_total wa = (Inr s2, wb) \<longrightarrow>
    cursor ex wb = (Inr (), wc) \<longrightarrow>
    query ex s1 False wc = (Inr [rk], wd) \<longrightarrow>
    query ex s2 False wd = (Inr [rt], we) \<longrightarrow>
      (\<exists>msg. outcome (row_unique_check2 ex count_key count_total) w
         = assert_equal_scalars (scalar_flatten rk) (scalar_flatten rt) msg)) \<and>
   (count_rows_helper ex ''count_found_rows_table'' [s, t, k, ft, fk] w = (Inr [rf], w1) \<longrightarrow>
    count_rows_helper ex ''count_unique_rows_table'' [s, t, k] w1 = (Inr [ru], w2) \<longrightarrow>
      outcome (dimensional_integrity_check_found ex s t k ft fk) w
        = assert_equal_scalars (scalar_flatten rf) (scalar_flatten ru)
            (\<lambda>foundRows uniqueRows. unique_found_message ''found'' k uniqueRows fk foundRows)) \<and>
   (count_rows_helper ex ''count_found_rows_table_argument'' [s, t, k, ft, fk, arg] w
      = (Inr [rf], w1) \<longrightarrow>
    count_rows_helper ex ''count_unique_rows_table'' [s, t, k] w1 = (Inr [ru], w2) \<longrightarrow>
      outcome (dimensional_integrity_check_found_joinArgument ex s t k ft fk arg) w
        = assert_equal_scalars (scalar_flatten rf) (scalar_flatten ru)
            (\<lambda>foundRows uniqueRows. unique_found_message ''found'' k uniqueRows fk foundRows)) \<and>
   (count_rows_helper ex ''count_found_rows_table'' [s, t, k, ft, fk] w = (Inr [rf], w1) \<longrightarrow>
    count_rows_helper ex ''count_unique_rows_table_argument'' [s, t, k, arg] w1
      = (Inr [ra], w2) \<longrightarrow>
      outcome (dimensional_integrity_check_found_argument ex s t k arg ft fk) w
        = assert_equal_scalars (scalar_flatten rf) (scalar_flatten ra)
            (\<lambda>foundRows uniqueRows. unique_found_message ''found'' k uniqueRows fk foundRows)) \<and>
   (count_rows_helper ex ''count_found_rows_table_withClause'' [s, t, k, ft, fk] w
      = (Inr [rf], w1) \<longrightarrow>
    count_rows_helper ex ''count_unique_rows_table_argument'' [s, t, k, arg] w1
      = (Inr [ra], w2) \<longrightarrow>
      outcome (dimensional_integrity_check_found_withClause_argument ex s t k arg ft fk) w
        = assert_equal_scalars (scalar_flatten rf) (scalar_flatten ra)
            (\<lambda>foundRows uniqueRows. unique_found_message ''found'' k uniqueRows fk foundRows)) \<and>
   (count_rows_helper ex ''count_unique_rows_table'' [s, t, fk] w = (Inr [rp], w1) \<longrightarrow>
    count_rows_helper ex ''count_unique_rows_table'' [s, t, k] w1 = (Inr [ru], w2) \<longrightarrow>
      outcome (dimensional_integrity_check_potential ex s t k fk) w
        = assert_equal_scalars (scalar_flatten rp) (scalar_flatten ru)
            (\<lambda>potentialRows uniqueRows.
               unique_found_message ''potential'' k uniqueRows fk potentialRows)) \<and>
   (count_rows_helper ex ''count_unique_rows_table'' [s, t, k] w = (Inr [ru], w1) \<longrightarrow>
      outcome (value_variance_check ex s t k field) w
        = (case scalar_flatten ru of
             Inl e \<Rightarrow> Inl e
           | Inr uniqueRows \<Rightarrow>
               (case int_of_str field of
                  Inl e \<Rightarrow> Inl e
                | Inr n \<Rightarrow>
                    if n = 0 \<or> n = 1 then
                      (if uniqueRows = n then Inr ()
                       else Inl (AssertionError (''Expected: '' @ quote @ field @ quote
                              @ ''   Actual: '' @ quote @ str_int uniqueRows @ quote)))
                    else if n = 2 then
                      (if 2 \<le> uniqueRows then Inr ()
                       else Inl (AssertionError (''Expected: '' @ quote @ field @ quote
                              @ ''   Actual: '' @ quote @ str_int uniqueRows @ quote)))
                    else Inl (AssertionError
                           ''Check 4th argument in TC, expected value 0, 1 or 2'')))) \<and>
   (count_rows_helper ex ''count_unique_rows_table'' [s, t, k] w = (Inr [ru], w1) \<longrightarrow>
    count_rows_helper ex' ''count_unique_rows_table'' [s, t, k] w' = (Inr [ru'], w1') \<longrightarrow>
    scalar_flatten ru = scalar_flatten ru' \<longrightarrow>
      outcome (value_variance_check ex s t k field) w
        = outcome (value_variance_check ex' s t k field) w')"
proof -
  have def: "scalar_flatten r
     = (case float_of_str (join ''.'' (map str_int r)) of Inl e \<Rightarrow> Inl e | Inr x \<Rightarrow> py_round x)"
    by (simp add: scalar_flatten_def)
  show ?thesis
    using def round_float_join_single [of r] flatten_3_14 flatten_5
      row_unique_check_scalars [of ex s t k w ru w1 ro w2]
      row_unique_check2_scalars [of ex count_key w s1 wa count_total s2 wb wc rk wd rt we]
      dimensional_integrity_check_found_scalars [of ex s t k ft fk w rf w1 ru w2]
      dimensional_integrity_check_found_joinArgument_scalars [of ex s t k ft fk arg w rf w1 ru w2]
      dimensional_integrity_check_found_argument_scalars [of ex s t k ft fk w rf w1 arg ra w2]
      dimensional_integrity_check_found_withClause_argument_scalars
        [of ex s t k ft fk w rf w1 arg ra w2]
      dimensional_integrity_check_potential_scalars [of ex s t fk w rp w1 k ru w2]
      value_variance_check_outcome [of ex s t k w ru w1 field]
      value_variance_check_scalar [of ex s t k w ru w1 ex' w' ru' w1' field]
    by blast
qed

text \<open>
  With a unique-row result \<open>(3, 14)\<close> against counts of \<open>(3,)\<close> every comparison passes,
  and \<open>value_variance_check\<close> with field 1 reports the actual value 3: the row counts as
  3, not as 17.
\<close>

theorem scalar_flatten_law_witness:
  "scalar_flatten [3, 14] = Inr 3 \<and>
   outcome (row_unique_check counts_db ''main'' ''person'' ''id'') [] = Inr () \<and>
   outcome (row_unique_check2 counts_db ''key.sql'' ''total.sql'') [] = Inr () \<and>
   outcome (dimensional_integrity_check_found counts_db ''main'' ''person'' ''id'' ''city''
              ''person_id'') [] = Inr () \<and>
   outcome (dimensional_integrity_check_found_joinArgument counts_db ''main'' ''person'' ''id''
              ''city'' ''person_id'' ''1 = 1'') [] = Inr () \<and>
   outcome (dimensional_integrity_check_found_argument counts_db ''main'' ''person'' ''id''
              ''1 = 1'' ''city'' ''person_id'') [] = Inr () \<and>
   outcome (dimensional_integrity_check_found_withClause_argument counts_db ''main'' ''person''
              ''id'' ''1 = 1'' ''city'' ''person_id'') [] = Inr () \<and>
   outcome (dimensional_integrity_check_potential counts_db ''main'' ''person'' ''id''
              ''person_id'') [] = Inr () \<and>
   outcome (value_variance_check counts_db ''main'' ''person'' ''id'' ''1'') []
     = Inl (AssertionError (''Expected: '1'   Actual: '3'' @ quote)) \<and>
   outcome (value_variance_check counts_db ''main'' ''person'' ''id'' ''1'') []
     = outcome (value_variance_check three_db ''main'' ''person'' ''id'' ''1'') []"
proof -
  have three: "scalar_flatten [3] = Inr 3" by code_simp
  have u: "\<And>args. count_rows_helper counts_db ''count_unique_rows_table'' args []
      = (Inr [[3, 14]], [])"
    by (simp add: counts_db_def stub_executor_def counts_helpers_def)
  have o: "count_rows_helper counts_db ''count_object_rows_table'' [''main'', ''person''] []
      = (Inr [[3]], [])"
    by (simp add: counts_db_def stub_executor_def counts_helpers_def)
  have f: "count_rows_helper counts_db ''count_found_rows_table''
      [''main'', ''person'', ''id'', ''city'', ''person_id''] [] = (Inr [[3]], [])"
    by (simp add: counts_db_def stub_executor_def counts_helpers_def)
  have fa: "count_rows_helper counts_db ''count_found_rows_table_argument''
      [''main'', ''person'', ''id'', ''city'', ''person_id'', ''1 = 1''] [] = (Inr [[3]], [])"
    by (simp add: counts_db_def stub_executor_def counts_helpers_def)
  have fw: "count_rows_helper counts_db ''count_found_rows_table_withClause''
      [''main'', ''person'', ''id'', ''city'', ''person_id''] [] = (Inr [[3]], [])"
    by (simp add: counts_db_def stub_executor_def counts_helpers_def)
  have ua: "count_rows_helper counts_db ''count_unique_rows_table_argument''
      [''main'', ''person'', ''id'', ''1 = 1''] [] = (Inr [[3]], [])"
    by (simp add: counts_db_def stub_executor_def counts_helpers_def)
  have files: "open_sql counts_db ''key.sql'' [] = (Inr ''key.sql'', [])"
    "open_sql counts_db ''total.sql'' [] = (Inr ''total.sql'', [])"
    "cursor counts_db [] = (Inr (), [])"
    "query counts_db ''key.sql'' False [] = (Inr [[3, 14]], [])"
    "query counts_db ''total.sql'' False [] = (Inr [[3]], [])"
    by (simp_all add: counts_db_def stub_executor_def counts_tables_def)
  have u3: "count_rows_helper three_db ''count_unique_rows_table'' [''main'', ''person'', ''id''] []
      = (Inr [[3]], [])"
    by (simp add: three_db_def stub_executor_def count_three_def)
  note law = scalar_flatten_law [where r = "[3]" and ex = counts_db and s = "''main''"
        and t = "''person''" and k = "''id''" and w = "[]" and ru = "[3, 14]" and ?w1.0 = "[]"
        and ro = "[3]" and ?w2.0 = "[]" and count_key = "''key.sql''" and ?s1.0 = "''key.sql''"
        and wa = "[]" and count_total = "''total.sql''" and ?s2.0 = "''total.sql''"
        and wb = "[]" and wc = "[]" and rk = "[3, 14]" and wd = "[]" and rt = "[3]"
        and we = "[]" and ft = "''city''" and fk = "''person_id''" and rf = "[3]"
        and arg = "''1 = 1''" and ra = "[3]" and rp = "[3, 14]" and ex' = three_db
        and w' = "[]" and ru' = "[3]" and w1' = "[]" and field = "''1''"]
  from law have pi: "scalar_flatten [3, 14] = Inr 3" by blast
  have eq: "\<And>msg. assert_equal_scalars (Inr 3) (Inr 3) msg = Inr ()"
    by (simp add: assert_equal_scalars_def)
  from law u o have c1: "outcome (row_unique_check counts_db ''main'' ''person'' ''id'') [] = Inr ()"
    by (simp add: pi three eq)
  from law files have c2: "outcome (row_unique_check2 counts_db ''key.sql'' ''total.sql'') [] = Inr ()"
    by (auto simp add: pi three eq)
  from law f u have c3: "outcome (dimensional_integrity_check_found counts_db ''main'' ''person''
      ''id'' ''city'' ''person_id'') [] = Inr ()"
    by (simp add: pi three eq)
  from law fa u have c4: "outcome (dimensional_integrity_check_found_joinArgument counts_db ''main''
      ''person'' ''id'' ''city'' ''person_id'' ''1 = 1'') [] = Inr ()"
    by (simp add: pi three eq)
  from law f ua have c5: "outcome (dimensional_integrity_check_found_argument counts_db ''main''
      ''person'' ''id'' ''1 = 1'' ''city'' ''person_id'') [] = Inr ()"
    by (simp add: pi three eq)
  from law fw ua have c6: "outcome (dimensional_integrity_check_found_withClause_argument counts_db
      ''main'' ''person'' ''id'' ''1 = 1'' ''city'' ''person_id'') [] = Inr ()"
    by (simp add: pi three eq)
  from law u have c7: "outcome (dimensional_integrity_check_potential counts_db ''main'' ''person''
      ''id'' ''person_id'') [] = Inr ()"
    by (simp add: pi three eq)
  have field: "int_of_str ''1'' = Inr 1" and actual: "str_int 3 = ''3''"
    by code_simp+
  from law u [of "[''main'', ''person'', ''id'']"]
  have "outcome (value_variance_check counts_db ''main'' ''person'' ''id'' ''1'') []
     = (case scalar_flatten [3, 14] of
          Inl e \<Rightarrow> Inl e
        | Inr uniqueRows \<Rightarrow>
            (case int_of_str ''1'' of
               Inl e \<Rightarrow> Inl e
             | Inr n \<Rightarrow>
                 if n = 0 \<or> n = 1 then
                   (if uniqueRows = n then Inr ()
                    else Inl (AssertionError (''Expected: '' @ quote @ ''1'' @ quote
                           @ ''   Actual: '' @ quote @ str_int uniqueRows @ quote)))
                 else if n = 2 then
                   (if 2 \<le> uniqueRows then Inr ()
                    else Inl (AssertionError (''Expected: '' @ quote @ ''1'' @ quote
                           @ ''   Actual: '' @ quote @ str_int uniqueRows @ quote)))
                 else Inl (AssertionError ''Check 4th argument in TC, expected value 0, 1 or 2'')))"
    by blast
  then have c8: "outcome (value_variance_check counts_db ''main'' ''person'' ''id'' ''1'') []
     = Inl (AssertionError (''Expected: '1'   Actual: '3'' @ quote))"
    by (simp add: pi field actual quote_def)
  have same: "scalar_flatten [3, 14] = scalar_flatten [3]"
    by (simp add: pi three)
  from law u [of "[''main'', ''person'', ''id'']"] u3 same
  have c9: "outcome (value_variance_check counts_db ''main'' ''person'' ''id'' ''1'') []
     = outcome (value_variance_check three_db ''main'' ''person'' ''id'' ''1'') []"
    by blast
  from pi c1 c2 c3 c4 c5 c6 c7 c8 c9 show ?thesis by blast
qed

end
